theory Spec2Isabelle
  imports Main
begin

section \<open>Devfile lifecycle verbs of odo (pkg/odo/cli/component/devfile.go)\<close>

text \<open>
  The verbs of devfile.go call collaborators that live in other packages: the devfile
  parser, the environment info store, the adapter factory, the adapter itself, the
  loggers and the process exit. Each collaborator is a field of a record (its answer for
  every argument), every call is written to a trace of events in the order the source
  makes it, and \<open>os.Exit\<close> is an outcome of its own, distinct from returning.
\<close>

subsection \<open>Errors\<close>

text \<open>
  A Go \<open>error\<close> is a value with a message. \<open>Failure\<close> is an error handed back by a
  collaborator, \<open>Wrap\<close> is \<open>errors.Wrap(err, msg)\<close> and \<open>Errorf\<close> is
  \<open>errors.Errorf\<close> with the format already filled in.
\<close>

datatype error = Failure string | Wrap error string | Errorf string

fun Error :: "error \<Rightarrow> string" where
  "Error (Failure m) = m"
| "Error (Wrap e m) = m @ '': '' @ Error e"
| "Error (Errorf m) = m"

subsection \<open>strings.ToLower\<close>

text \<open>
  Go's \<open>strings.ToLower\<close> maps the bytes \<open>A\<close> to \<open>Z\<close> to \<open>a\<close> to \<open>z\<close> when
  every byte of the string is below \<open>utf8.RuneSelf = 0x80\<close>, and otherwise maps the decoded
  runes through the Unicode tables (\<open>strings.Map(unicode.ToLower, s)\<close>). The Unicode
  mapping is the parameter \<open>u\<close>.
\<close>

definition isASCII :: "string \<Rightarrow> bool" where
  "isASCII s = list_all (\<lambda>c. of_char c < (128::nat)) s"

definition toLowerByte :: "char \<Rightarrow> char" where
  "toLowerByte c =
     (if (65::nat) \<le> of_char c \<and> of_char c \<le> (90::nat)
      then char_of (of_char c + (32::nat)) else c)"

definition ToLower :: "(string \<Rightarrow> string) \<Rightarrow> string \<Rightarrow> string" where
  "ToLower u s = (if isASCII s then map toLowerByte s else u s)"

subsection \<open>The manifest\<close>

text \<open>
  The devfile types are declared in the devfile library; the verbs only pass the parsed
  object on, read its \<open>Data\<close> field and compare one command with the zero
  \<open>Command{}\<close>. A command carries its id and the kind and default marker of its group.
\<close>

datatype CommandGroupKind = BuildCommandGroupKind | RunCommandGroupKind
  | DebugCommandGroupKind | TestCommandGroupKind

record Command =
  CommandId :: string
  GroupKind :: "CommandGroupKind option"
  IsDefault :: bool
  CommandLine :: string

definition emptyCommand :: Command where
  "emptyCommand = \<lparr>CommandId = [], GroupKind = None, IsDefault = False, CommandLine = []\<rparr>"

record DevfileData =
  Commands :: "Command list"

record DevfileObj =
  Data :: DevfileData

subsection \<open>Environment info, URLs and run mode\<close>

datatype RUNMode = Run | Debug

text \<open>
  \<open>localConfigProvider.URLKind\<close> is declared outside this file; the code compares a
  kind with \<open>DOCKER\<close> only, and every other kind counts as a cluster URL.
\<close>

datatype URLKind = DOCKER | INGRESS | ROUTE

record LocalURL =
  Name :: string
  Port :: int
  Kind :: URLKind

text \<open>
  The environment info store, as the four accessors the verbs call on it. \<open>ListURLs\<close>
  and \<open>SetRunMode\<close> can fail.
\<close>

record EnvSpecificInfo =
  GetName :: string
  GetDebugPort :: int
  ListURLs :: "error + LocalURL list"
  SetRunMode :: "RUNMode \<Rightarrow> error option"

subsection \<open>Platform context, push parameters and the adapter\<close>

datatype KubernetesContext = KubernetesContext (Namespace: string)

text \<open>
  \<open>platformContext\<close> is an \<open>interface{}\<close> holding either \<open>nil\<close> (the local
  engine) or a \<open>KubernetesContext\<close>: an option.
\<close>

type_synonym platformContext = "KubernetesContext option"

record PushParameters =
  Path :: string
  IgnoredFiles :: "string list"
  ForceBuild :: bool
  Show :: bool
  EnvSpecificInfo :: EnvSpecificInfo
  DevfileBuildCmd :: string
  DevfileRunCmd :: string
  DevfileDebugCmd :: string
  Debug_flag :: bool
  DebugPort :: int

text \<open>The component adapter: what each verb answers for each argument.\<close>

record ComponentAdapter =
  Push :: "PushParameters \<Rightarrow> error option"
  Log :: "bool \<Rightarrow> Command \<Rightarrow> error + string"
  Delete :: "(string \<rightharpoonup> string) \<Rightarrow> bool \<Rightarrow> error option"
  Exec :: "string list \<Rightarrow> error option"

subsection \<open>The collaborators and the trace\<close>

text \<open>
  \<open>GetAbsPath\<close> returns its string also beside an error, and \<open>ApplyIgnore\<close>
  writes through the pointer it is given, so both answer with a pair.
  \<open>common.GetDebugCommand\<close> and \<open>common.GetRunCommand\<close> are defined in another
  package: they are taken as they answer, for every manifest and command name.
\<close>

record world =
  ParseAndValidate :: "string \<Rightarrow> error + DevfileObj"
  ValidateDevfileData :: "DevfileData \<Rightarrow> error option"
  GetAbsPath :: "string \<Rightarrow> string \<times> error option"
  ApplyIgnore :: "string list \<Rightarrow> string \<Rightarrow> string list \<times> error option"
  IsPushTargetDocker :: bool
  IsJSON :: bool
  NewComponentAdapter ::
    "string \<Rightarrow> string \<Rightarrow> string \<Rightarrow> DevfileObj \<Rightarrow> platformContext \<Rightarrow> error + ComponentAdapter"
  TimestampNow :: string
  DisplayLog :: "bool \<Rightarrow> string \<Rightarrow> string \<Rightarrow> int \<Rightarrow> error option"
  GetDebugCommand :: "DevfileData \<Rightarrow> string \<Rightarrow> error + Command"
  GetRunCommand :: "DevfileData \<Rightarrow> string \<Rightarrow> error + Command"
  unicodeToLower :: "string \<Rightarrow> string"

datatype event =
    Call_ParseAndValidate string
  | Call_ValidateDevfileData DevfileData
  | Call_GetName
  | Call_GetAbsPath string
  | Call_ApplyIgnore "string list" string
  | Call_NewComponentAdapter string string string DevfileObj platformContext
  | Call_GetDebugPort
  | Call_ListURLs
  | Log_Warningf string
  | Adapter_Push PushParameters
  | Log_Infof string
  | Log_Success string
  | Log_Errorf string
  | Call_ReportError error string
  | Call_SetRunMode RUNMode
  | Call_GetDebugCommand DevfileData string
  | Call_GetRunCommand DevfileData string
  | Adapter_Log bool Command
  | Call_DisplayLog bool string string int
  | Adapter_Delete "string \<rightharpoonup> string" bool
  | Adapter_Exec "string list"

text \<open>A verb either returns its \<open>error\<close> (\<open>None\<close> is \<open>nil\<close>) or exits the process.\<close>

datatype outcome = Returned "error option" | Exited int

text \<open>The events of one kind, to select them from a trace.\<close>

fun is_ReportError :: "event \<Rightarrow> bool" where
  "is_ReportError (Call_ReportError _ _) = True"
| "is_ReportError _ = False"

fun is_SetRunMode :: "event \<Rightarrow> bool" where
  "is_SetRunMode (Call_SetRunMode _) = True"
| "is_SetRunMode _ = False"

fun is_Adapter_Push :: "event \<Rightarrow> bool" where
  "is_Adapter_Push (Adapter_Push _) = True"
| "is_Adapter_Push _ = False"

fun is_Warningf :: "event \<Rightarrow> bool" where
  "is_Warningf (Log_Warningf _) = True"
| "is_Warningf _ = False"

fun is_Adapter_Log :: "event \<Rightarrow> bool" where
  "is_Adapter_Log (Adapter_Log _ _) = True"
| "is_Adapter_Log _ = False"

fun is_Adapter_Delete :: "event \<Rightarrow> bool" where
  "is_Adapter_Delete (Adapter_Delete _ _) = True"
| "is_Adapter_Delete _ = False"

fun is_command_lookup :: "event \<Rightarrow> bool" where
  "is_command_lookup (Call_GetDebugCommand _ _) = True"
| "is_command_lookup (Call_GetRunCommand _ _) = True"
| "is_command_lookup _ = False"

subsection \<open>warnIfURLSInvalid\<close>

text \<open>
  The loop of \<open>warnIfURLSInvalid\<close> over the URLs, with the two flags it sets as
  accumulators.
\<close>

fun urlKindsExist :: "LocalURL list \<Rightarrow> bool \<times> bool \<Rightarrow> bool \<times> bool" where
  "urlKindsExist [] (dockerURLExists, kubeURLExists) = (dockerURLExists, kubeURLExists)"
| "urlKindsExist (element # rest) (dockerURLExists, kubeURLExists) =
     (if Kind element = DOCKER then urlKindsExist rest (True, kubeURLExists)
      else urlKindsExist rest (dockerURLExists, True))"

text \<open>
  \<open>warnIfURLSInvalid\<close> has no result and writes to the log only; the model returns the
  log lines it writes. The push target is read from the global flag.
\<close>

definition warnIfURLSInvalid :: "bool \<Rightarrow> LocalURL list \<Rightarrow> event list" where
  "warnIfURLSInvalid isPushTargetDocker url =
     (case urlKindsExist url (False, False) of (dockerURLExists, kubeURLExists) \<Rightarrow>
        let urlOutput = (if length url > 1 then ''URLs'' else ''a URL'') in
        if isPushTargetDocker \<and> \<not> dockerURLExists \<and> kubeURLExists
        then [Log_Warningf (''Found '' @ urlOutput @
                '' defined for Kubernetes, but no valid URLs for Docker.'')]
        else if \<not> isPushTargetDocker \<and> \<not> kubeURLExists \<and> dockerURLExists
        then [Log_Warningf (''Found '' @ urlOutput @
                '' defined for Docker, but no valid URLs for Kubernetes.'')]
        else [])"

subsection \<open>Push\<close>

record PushOptions =
  po_DevfilePath :: string
  po_EnvSpecificInfo :: EnvSpecificInfo
  po_componentContext :: string
  po_sourcePath :: string
  po_ignores :: "string list"
  po_Namespace :: string
  po_Application :: string
  po_forceBuild :: bool
  po_show :: bool
  po_devfileBuildCommand :: string
  po_devfileRunCommand :: string
  po_devfileDebugCommand :: string
  po_debugRun :: bool

text \<open>
  The platform context of Push and Log: \<open>nil\<close> for the local engine, otherwise the
  namespace of the cluster client.
\<close>

definition selectPlatformContext :: "world \<Rightarrow> string \<Rightarrow> platformContext" where
  "selectPlatformContext w namespace =
     (if IsPushTargetDocker w then None else Some (KubernetesContext namespace))"

text \<open>The struct literal \<open>common.PushParameters{...}\<close> of \<open>devfilePushInner\<close>.\<close>

definition pushParams :: "world \<Rightarrow> PushOptions \<Rightarrow> PushParameters" where
  "pushParams w po =
     \<lparr>Path = po_sourcePath po,
      IgnoredFiles = po_ignores po,
      ForceBuild = po_forceBuild po,
      Show = po_show po,
      EnvSpecificInfo = po_EnvSpecificInfo po,
      DevfileBuildCmd = ToLower (unicodeToLower w) (po_devfileBuildCommand po),
      DevfileRunCmd = ToLower (unicodeToLower w) (po_devfileRunCommand po),
      DevfileDebugCmd = ToLower (unicodeToLower w) (po_devfileDebugCommand po),
      Debug_flag = po_debugRun po,
      DebugPort = GetDebugPort (po_EnvSpecificInfo po)\<rparr>"

text \<open>
  \<open>devfilePushInner\<close> writes \<open>po.sourcePath\<close> and \<open>po.ignores\<close>, so it returns the
  options beside the trace and the error.
\<close>

definition devfilePushInner :: "world \<Rightarrow> PushOptions \<Rightarrow> PushOptions \<times> event list \<times> error option" where
  "devfilePushInner w po =
    (let t1 = [Call_ParseAndValidate (po_DevfilePath po)] in
     case ParseAndValidate w (po_DevfilePath po) of
       Inl err \<Rightarrow> (po, t1, Some err)
     | Inr devObj \<Rightarrow>
    (let t2 = t1 @ [Call_ValidateDevfileData (Data devObj)] in
     case ValidateDevfileData w (Data devObj) of
       Some err \<Rightarrow> (po, t2, Some err)
     | None \<Rightarrow>
    (let componentName = GetName (po_EnvSpecificInfo po);
         t3 = t2 @ [Call_GetName, Call_GetAbsPath (po_componentContext po)];
         po1 = po\<lparr>po_sourcePath := fst (GetAbsPath w (po_componentContext po))\<rparr> in
     case snd (GetAbsPath w (po_componentContext po)) of
       Some err \<Rightarrow> (po1, t3, Some (Wrap err ''unable to get source path''))
     | None \<Rightarrow>
    (let t4 = t3 @ [Call_ApplyIgnore (po_ignores po1) (po_sourcePath po1)];
         po2 = po1\<lparr>po_ignores := fst (ApplyIgnore w (po_ignores po1) (po_sourcePath po1))\<rparr> in
     case snd (ApplyIgnore w (po_ignores po1) (po_sourcePath po1)) of
       Some err \<Rightarrow> (po2, t4, Some (Wrap err ''unable to apply ignore information''))
     | None \<Rightarrow>
    (let platformContext = selectPlatformContext w (po_Namespace po2);
         t5 = t4 @ [Call_NewComponentAdapter componentName (po_componentContext po2)
                      (po_Application po2) devObj platformContext] in
     case NewComponentAdapter w componentName (po_componentContext po2)
            (po_Application po2) devObj platformContext of
       Inl err \<Rightarrow> (po2, t5, Some err)
     | Inr devfileHandler \<Rightarrow>
    (let params = pushParams w po2;
         t6 = t5 @ [Call_GetDebugPort, Call_ListURLs] in
     case ListURLs (po_EnvSpecificInfo po2) of
       Inl err \<Rightarrow> (po2, t6, Some err)
     | Inr localURLs \<Rightarrow>
    (let t7 = t6 @ warnIfURLSInvalid (IsPushTargetDocker w) localURLs @ [Adapter_Push params] in
     case Push devfileHandler params of
       Some err \<Rightarrow>
         (po2, t7,
          Some (Errorf (''Failed to start component with name '' @ componentName @
                        ''. Error: '' @ Error err)))
     | None \<Rightarrow>
         (po2,
          t7 @ [Log_Infof (CHR 0x0A # ''Pushing devfile component '' @ componentName),
                Log_Success ''Changes successfully pushed to component''],
          None))))))))"

text \<open>
  \<open>DevfilePush\<close>: in JSON mode a failure of the inner push is reported to the event
  sink and the process exits with status 1; otherwise the error is returned. After a
  successful push the run mode is saved and the result of saving it is returned.
\<close>

definition DevfilePush :: "world \<Rightarrow> PushOptions \<Rightarrow> PushOptions \<times> event list \<times> outcome" where
  "DevfilePush w po =
    (case devfilePushInner w po of (po', t, err) \<Rightarrow>
      (case err of
         Some e \<Rightarrow>
           if IsJSON w then (po', t @ [Call_ReportError e (TimestampNow w)], Exited 1)
           else (po', t, Returned (Some e))
       | None \<Rightarrow>
           let runMode = (if po_debugRun po' then Debug else Run) in
           (po', t @ [Call_SetRunMode runMode],
            Returned (SetRunMode (po_EnvSpecificInfo po') runMode))))"

subsection \<open>Log\<close>

record LogOptions =
  lo_devfilePath :: string
  lo_EnvSpecificInfo :: EnvSpecificInfo
  lo_Namespace :: string
  lo_componentContext :: string
  lo_Application :: string
  lo_debug :: bool
  lo_logFollow :: bool

definition noDebugCommandFound :: error where
  "noDebugCommandFound =
     Errorf (''no debug command found in devfile, please run '' @ [CHR 0x22] @ ''odo log'' @
             [CHR 0x22] @ '' for run command logs'')"

text \<open>
  The command of \<open>DevfileComponentLog\<close> (lines 188 to 203): the debug command when
  \<open>lo.debug\<close> is set, with the zero \<open>Command{}\<close> turned into an error, and the run
  command otherwise. The name passed to the lookup is empty.
\<close>

definition logCommand :: "world \<Rightarrow> LogOptions \<Rightarrow> DevfileData \<Rightarrow> event list \<times> (error + Command)" where
  "logCommand w lo d =
     (if lo_debug lo then
        ([Call_GetDebugCommand d []],
         case GetDebugCommand w d [] of
           Inl err \<Rightarrow> Inl err
         | Inr command \<Rightarrow>
             if emptyCommand = command then Inl noDebugCommandFound else Inr command)
      else
        ([Call_GetRunCommand d []],
         case GetRunCommand w d [] of
           Inl err \<Rightarrow> Inl err
         | Inr command \<Rightarrow> Inr command))"

definition DevfileComponentLog :: "world \<Rightarrow> LogOptions \<Rightarrow> event list \<times> outcome" where
  "DevfileComponentLog w lo =
    (let t1 = [Call_ParseAndValidate (lo_devfilePath lo)] in
     case ParseAndValidate w (lo_devfilePath lo) of
       Inl err \<Rightarrow> (t1, Returned (Some err))
     | Inr devObj \<Rightarrow>
    (let t2 = t1 @ [Call_ValidateDevfileData (Data devObj)] in
     case ValidateDevfileData w (Data devObj) of
       Some err \<Rightarrow> (t2, Returned (Some err))
     | None \<Rightarrow>
    (let componentName = GetName (lo_EnvSpecificInfo lo);
         platformContext = selectPlatformContext w (lo_Namespace lo);
         t3 = t2 @ [Call_GetName,
                    Call_NewComponentAdapter componentName (lo_componentContext lo)
                      (lo_Application lo) devObj platformContext] in
     case NewComponentAdapter w componentName (lo_componentContext lo)
            (lo_Application lo) devObj platformContext of
       Inl err \<Rightarrow> (t3, Returned (Some err))
     | Inr devfileHandler \<Rightarrow>
    (let t4 = t3 @ fst (logCommand w lo (Data devObj)) in
     case snd (logCommand w lo (Data devObj)) of
       Inl err \<Rightarrow> (t4, Returned (Some err))
     | Inr command \<Rightarrow>
    (let t5 = t4 @ [Adapter_Log (lo_logFollow lo) command] in
     case Log devfileHandler (lo_logFollow lo) command of
       Inl err \<Rightarrow>
         (t5 @ [Log_Errorf (''Failed to log component with name '' @ componentName @
                            ''.'' @ [CHR 0x0A] @ ''Error: '' @ Error err)],
          Exited 1)
     | Inr rd \<Rightarrow>
         (t5 @ [Call_DisplayLog (lo_logFollow lo) rd componentName (- 1)],
          Returned (DisplayLog w (lo_logFollow lo) rd componentName (- 1))))))))"

subsection \<open>Delete and Exec\<close>

record DeleteOptions =
  do_devfilePath :: string
  do_EnvSpecificInfo :: EnvSpecificInfo
  do_namespace :: string
  do_componentContext :: string
  do_Application :: string
  do_show :: bool

definition DevfileComponentDelete :: "world \<Rightarrow> DeleteOptions \<Rightarrow> event list \<times> outcome" where
  "DevfileComponentDelete w dopts =
    (let t1 = [Call_ParseAndValidate (do_devfilePath dopts)] in
     case ParseAndValidate w (do_devfilePath dopts) of
       Inl err \<Rightarrow> (t1, Returned (Some err))
     | Inr devObj \<Rightarrow>
    (let t2 = t1 @ [Call_ValidateDevfileData (Data devObj)] in
     case ValidateDevfileData w (Data devObj) of
       Some err \<Rightarrow> (t2, Returned (Some err))
     | None \<Rightarrow>
    (let componentName = GetName (do_EnvSpecificInfo dopts);
         kc = KubernetesContext (do_namespace dopts);
         labels = [''component'' \<mapsto> componentName];
         t3 = t2 @ [Call_GetName,
                    Call_NewComponentAdapter componentName (do_componentContext dopts)
                      (do_Application dopts) devObj (Some kc)] in
     case NewComponentAdapter w componentName (do_componentContext dopts)
            (do_Application dopts) devObj (Some kc) of
       Inl err \<Rightarrow> (t3, Returned (Some err))
     | Inr devfileHandler \<Rightarrow>
         (t3 @ [Adapter_Delete labels (do_show dopts)],
          Returned (Delete devfileHandler labels (do_show dopts))))))"

record ExecOptions =
  eo_devfilePath :: string
  eo_EnvSpecificInfo :: EnvSpecificInfo
  eo_namespace :: string
  eo_componentContext :: string
  eo_Application :: string

definition DevfileComponentExec :: "world \<Rightarrow> ExecOptions \<Rightarrow> string list \<Rightarrow> event list \<times> outcome" where
  "DevfileComponentExec w eo command =
    (let t1 = [Call_ParseAndValidate (eo_devfilePath eo)] in
     case ParseAndValidate w (eo_devfilePath eo) of
       Inl err \<Rightarrow> (t1, Returned (Some err))
     | Inr devObj \<Rightarrow>
    (let t2 = t1 @ [Call_ValidateDevfileData (Data devObj)] in
     case ValidateDevfileData w (Data devObj) of
       Some err \<Rightarrow> (t2, Returned (Some err))
     | None \<Rightarrow>
    (let componentName = GetName (eo_EnvSpecificInfo eo);
         kc = KubernetesContext (eo_namespace eo);
         t3 = t2 @ [Call_GetName,
                    Call_NewComponentAdapter componentName (eo_componentContext eo)
                      (eo_Application eo) devObj (Some kc)] in
     case NewComponentAdapter w componentName (eo_componentContext eo)
            (eo_Application eo) devObj (Some kc) of
       Inl err \<Rightarrow> (t3, Returned (Some err))
     | Inr devfileHandler \<Rightarrow>
         (t3 @ [Adapter_Exec command], Returned (Exec devfileHandler command)))))"

subsection \<open>A concrete component\<close>

text \<open>
  A manifest with one default build command \<open>build\<close>, one default run command
  \<open>run\<close> and no debug command, an environment of the component \<open>nodejs\<close>, and
  collaborators that succeed except where a parameter says otherwise.
\<close>

definition exManifest :: DevfileObj where
  "exManifest =
     \<lparr>Data = \<lparr>Commands =
        [\<lparr>CommandId = ''build'', GroupKind = Some BuildCommandGroupKind, IsDefault = True,
          CommandLine = ''npm install''\<rparr>,
         \<lparr>CommandId = ''run'', GroupKind = Some RunCommandGroupKind, IsDefault = True,
          CommandLine = ''npm start''\<rparr>]\<rparr>\<rparr>"

text \<open>The commands of a manifest whose group is of the given kind.\<close>

definition commandsOfKind :: "CommandGroupKind \<Rightarrow> DevfileData \<Rightarrow> Command list" where
  "commandsOfKind kind d = filter (\<lambda>c. GroupKind c = Some kind) (Commands d)"

definition exAdapter :: "error option \<Rightarrow> ComponentAdapter" where
  "exAdapter r =
     \<lparr>Push = (\<lambda>_. r),
      Log = (\<lambda>_ _. case r of None \<Rightarrow> Inr ''listening on 3000'' | Some e \<Rightarrow> Inl e),
      Delete = (\<lambda>_ _. r),
      Exec = (\<lambda>_. r)\<rparr>"

text \<open>
  In the concrete world the lookups answer with the first command of the kind, and with
  the zero command where the manifest has none of the kind.
\<close>

definition exWorld :: "bool \<Rightarrow> bool \<Rightarrow> error option \<Rightarrow> world" where
  "exWorld docker json r =
     \<lparr>ParseAndValidate = (\<lambda>_. Inr exManifest),
      ValidateDevfileData = (\<lambda>_. None),
      GetAbsPath = (\<lambda>p. (''/home/dev/'' @ p, None)),
      ApplyIgnore = (\<lambda>ignores _. (''.git'' # ignores, None)),
      IsPushTargetDocker = docker,
      IsJSON = json,
      NewComponentAdapter = (\<lambda>_ _ _ _ _. Inr (exAdapter r)),
      TimestampNow = ''1604236800.000000'',
      DisplayLog = (\<lambda>_ _ _ _. None),
      GetDebugCommand = (\<lambda>d _. case commandsOfKind DebugCommandGroupKind d of
                                  [] \<Rightarrow> Inr emptyCommand | c # _ \<Rightarrow> Inr c),
      GetRunCommand = (\<lambda>d _. case commandsOfKind RunCommandGroupKind d of
                                [] \<Rightarrow> Inr emptyCommand | c # _ \<Rightarrow> Inr c),
      unicodeToLower = (\<lambda>s. s)\<rparr>"

text \<open>The same world with an adapter factory that cannot reach the cluster.\<close>

definition exWorldNoCluster :: world where
  "exWorldNoCluster =
     (exWorld False False None)
       \<lparr>NewComponentAdapter := (\<lambda>_ _ _ _ _. Inl (Failure ''cannot reach the cluster''))\<rparr>"

definition exEnv :: "error + LocalURL list \<Rightarrow> error option \<Rightarrow> EnvSpecificInfo" where
  "exEnv urls saved =
     \<lparr>GetName = ''nodejs'', GetDebugPort = 5858, ListURLs = urls, SetRunMode = (\<lambda>_. saved)\<rparr>"

definition exPush :: "EnvSpecificInfo \<Rightarrow> string \<Rightarrow> string \<Rightarrow> string \<Rightarrow> bool \<Rightarrow> PushOptions" where
  "exPush esi build run debug debugRun =
     \<lparr>po_DevfilePath = ''devfile.yaml'', po_EnvSpecificInfo = esi,
      po_componentContext = ''app'', po_sourcePath = [], po_ignores = [],
      po_Namespace = ''myproject'', po_Application = ''app'', po_forceBuild = False,
      po_show = False, po_devfileBuildCommand = build, po_devfileRunCommand = run,
      po_devfileDebugCommand = debug, po_debugRun = debugRun\<rparr>"

definition exLog :: "bool \<Rightarrow> LogOptions" where
  "exLog debug =
     \<lparr>lo_devfilePath = ''devfile.yaml'', lo_EnvSpecificInfo = exEnv (Inr []) None,
      lo_Namespace = ''myproject'', lo_componentContext = ''app'', lo_Application = ''app'',
      lo_debug = debug, lo_logFollow = False\<rparr>"

definition exDelete :: DeleteOptions where
  "exDelete =
     \<lparr>do_devfilePath = ''devfile.yaml'', do_EnvSpecificInfo = exEnv (Inr []) None,
      do_namespace = ''myproject'', do_componentContext = ''app'', do_Application = ''app'',
      do_show = True\<rparr>"

definition exExec :: ExecOptions where
  "exExec =
     \<lparr>eo_devfilePath = ''devfile.yaml'', eo_EnvSpecificInfo = exEnv (Inr []) None,
      eo_namespace = ''myproject'', eo_componentContext = ''app'', eo_Application = ''app''\<rparr>"

section \<open>Properties of Push\<close>

subsection \<open>Lower-casing of concrete names\<close>

lemma ToLower_Nil: "ToLower u [] = []"
  by (simp add: ToLower_def isASCII_def)

lemma ToLower_examples:
  "ToLower (\<lambda>s. s) ''Build'' = ''build''"
  "ToLower (\<lambda>s. s) ''RUN'' = ''run''"
  "ToLower (\<lambda>s. s) ''Debug-App'' = ''debug-app''"
  "ToLower (\<lambda>s. s) ''build'' = ''build''"
  "ToLower (\<lambda>s. s) ''run'' = ''run''"
  by code_simp+

subsection \<open>What the URL check writes\<close>

lemma warn_not_ReportError: "filter is_ReportError (warnIfURLSInvalid b url) = []"
  by (simp add: warnIfURLSInvalid_def Let_def split: prod.splits)

lemma warn_not_SetRunMode: "filter is_SetRunMode (warnIfURLSInvalid b url) = []"
  by (simp add: warnIfURLSInvalid_def Let_def split: prod.splits)

lemma warn_not_Adapter_Push: "filter is_Adapter_Push (warnIfURLSInvalid b url) = []"
  by (simp add: warnIfURLSInvalid_def Let_def split: prod.splits)


subsection \<open>The trace and the options of the inner push\<close>

lemma inner_no_ReportError:
  "filter is_ReportError (fst (snd (devfilePushInner w po))) = []"
  by (simp add: devfilePushInner_def Let_def warn_not_ReportError
      split: sum.splits option.splits)

lemma inner_no_SetRunMode:
  "filter is_SetRunMode (fst (snd (devfilePushInner w po))) = []"
  by (simp add: devfilePushInner_def Let_def warn_not_SetRunMode
      split: sum.splits option.splits)


text \<open>The inner push writes the source path and the ignores, and no other option.\<close>

lemma inner_keeps_options:
  "po_debugRun (fst (devfilePushInner w po)) = po_debugRun po"
  "po_EnvSpecificInfo (fst (devfilePushInner w po)) = po_EnvSpecificInfo po"
  "po_devfileBuildCommand (fst (devfilePushInner w po)) = po_devfileBuildCommand po"
  "po_devfileRunCommand (fst (devfilePushInner w po)) = po_devfileRunCommand po"
  "po_devfileDebugCommand (fst (devfilePushInner w po)) = po_devfileDebugCommand po"
  "po_forceBuild (fst (devfilePushInner w po)) = po_forceBuild po"
  by (simp_all add: devfilePushInner_def Let_def split: sum.splits option.splits)

text \<open>The adapter is asked to push at most once, with the parameters built from the options.\<close>

lemma inner_Adapter_Push_calls:
  "filter is_Adapter_Push (fst (snd (devfilePushInner w po))) = [] \<or>
   filter is_Adapter_Push (fst (snd (devfilePushInner w po))) =
     [Adapter_Push (pushParams w (fst (devfilePushInner w po)))]"
  by (simp add: devfilePushInner_def Let_def warn_not_Adapter_Push
      split: sum.splits option.splits)

lemma inner_success_Adapter_Push:
  "snd (snd (devfilePushInner w po)) = None \<Longrightarrow>
   filter is_Adapter_Push (fst (snd (devfilePushInner w po))) =
     [Adapter_Push (pushParams w (fst (devfilePushInner w po)))]"
  by (simp add: devfilePushInner_def Let_def warn_not_Adapter_Push
      split: sum.splits option.splits)

lemma inner_Adapter_Push_mem:
  assumes "Adapter_Push p \<in> set (fst (snd (devfilePushInner w po)))"
  shows "p = pushParams w (fst (devfilePushInner w po))"
proof -
  have mem: "Adapter_Push p \<in> set (filter is_Adapter_Push (fst (snd (devfilePushInner w po))))"
    using assms by simp
  consider (none) "filter is_Adapter_Push (fst (snd (devfilePushInner w po))) = []"
    | (one) "filter is_Adapter_Push (fst (snd (devfilePushInner w po))) =
               [Adapter_Push (pushParams w (fst (devfilePushInner w po)))]"
    using inner_Adapter_Push_calls [of w po] by blast
  then show ?thesis
  proof cases
    case none
    from mem [unfolded none] show ?thesis by simp
  next
    case one
    from mem [unfolded one] show ?thesis by simp
  qed
qed

lemma pushParams_fields:
  "DevfileBuildCmd (pushParams w (fst (devfilePushInner w po))) =
     ToLower (unicodeToLower w) (po_devfileBuildCommand po)"
  "DevfileRunCmd (pushParams w (fst (devfilePushInner w po))) =
     ToLower (unicodeToLower w) (po_devfileRunCommand po)"
  "DevfileDebugCmd (pushParams w (fst (devfilePushInner w po))) =
     ToLower (unicodeToLower w) (po_devfileDebugCommand po)"
  "ForceBuild (pushParams w (fst (devfilePushInner w po))) = po_forceBuild po"
  "Debug_flag (pushParams w (fst (devfilePushInner w po))) = po_debugRun po"
  by (simp_all add: pushParams_def inner_keeps_options)

subsection \<open>The trace and the outcome of DevfilePush\<close>

lemma DevfilePush_trace:
  "fst (snd (DevfilePush w po)) =
     fst (snd (devfilePushInner w po)) @
     (case snd (snd (devfilePushInner w po)) of
        Some e \<Rightarrow> if IsJSON w then [Call_ReportError e (TimestampNow w)] else []
      | None \<Rightarrow> [Call_SetRunMode (if po_debugRun po then Debug else Run)])"
  using inner_keeps_options(1) [of w po]
  by (cases "devfilePushInner w po") (auto simp: DevfilePush_def Let_def split: option.splits)

lemma DevfilePush_outcome:
  "snd (snd (DevfilePush w po)) =
     (case snd (snd (devfilePushInner w po)) of
        Some e \<Rightarrow> if IsJSON w then Exited 1 else Returned (Some e)
      | None \<Rightarrow>
          Returned (SetRunMode (po_EnvSpecificInfo po) (if po_debugRun po then Debug else Run)))"
  using inner_keeps_options(1,2) [of w po]
  by (cases "devfilePushInner w po") (auto simp: DevfilePush_def Let_def split: option.splits)

lemma DevfilePush_Adapter_Push_mem:
  "Adapter_Push p \<in> set (fst (snd (DevfilePush w po))) \<longleftrightarrow>
   Adapter_Push p \<in> set (fst (snd (devfilePushInner w po)))"
  by (simp add: DevfilePush_trace split: option.splits)

lemma DevfilePush_filter_Adapter_Push:
  "filter is_Adapter_Push (fst (snd (DevfilePush w po))) =
   filter is_Adapter_Push (fst (snd (devfilePushInner w po)))"
  by (simp add: DevfilePush_trace split: option.splits)

lemma DevfilePush_filter_SetRunMode:
  "filter is_SetRunMode (fst (snd (DevfilePush w po))) =
     (case snd (snd (devfilePushInner w po)) of
        Some e \<Rightarrow> []
      | None \<Rightarrow> [Call_SetRunMode (if po_debugRun po then Debug else Run)])"
  by (simp add: DevfilePush_trace inner_no_SetRunMode split: option.splits)

subsection \<open>The concrete component, evaluated\<close>

lemma exPush_sel:
  "po_debugRun (exPush esi b r g dbg) = dbg"
  "po_EnvSpecificInfo (exPush esi b r g dbg) = esi"
  "po_devfileBuildCommand (exPush esi b r g dbg) = b"
  "po_devfileRunCommand (exPush esi b r g dbg) = r"
  "po_devfileDebugCommand (exPush esi b r g dbg) = g"
  "po_forceBuild (exPush esi b r g dbg) = False"
  by (simp_all add: exPush_def)

lemma exEnv_sel:
  "SetRunMode (exEnv urls saved) m = saved"
  "ListURLs (exEnv urls saved) = urls"
  "GetName (exEnv urls saved) = ''nodejs''"
  "GetDebugPort (exEnv urls saved) = 5858"
  by (simp_all add: exEnv_def)

text \<open>A push that succeeds, one whose adapter fails, and one whose URLs cannot be listed.\<close>

lemma ex_inner_ok:
  "devfilePushInner (exWorld d j None) (exPush (exEnv (Inr []) s) b r g dbg) =
    ((exPush (exEnv (Inr []) s) b r g dbg)
       \<lparr>po_sourcePath := ''/home/dev/app'', po_ignores := [''.git'']\<rparr>,
     [Call_ParseAndValidate ''devfile.yaml'', Call_ValidateDevfileData (Data exManifest),
      Call_GetName, Call_GetAbsPath ''app'', Call_ApplyIgnore [] ''/home/dev/app'',
      Call_NewComponentAdapter ''nodejs'' ''app'' ''app'' exManifest
        (if d then None else Some (KubernetesContext ''myproject'')),
      Call_GetDebugPort, Call_ListURLs,
      Adapter_Push (pushParams (exWorld d j None)
        ((exPush (exEnv (Inr []) s) b r g dbg)
           \<lparr>po_sourcePath := ''/home/dev/app'', po_ignores := [''.git'']\<rparr>)),
      Log_Infof (CHR 0x0A # ''Pushing devfile component nodejs''),
      Log_Success ''Changes successfully pushed to component''],
     None)"
  by (simp add: devfilePushInner_def exWorld_def exEnv_def exPush_def exAdapter_def
      selectPlatformContext_def warnIfURLSInvalid_def Let_def)

lemma ex_inner_fail:
  "devfilePushInner (exWorld d j (Some err)) (exPush (exEnv (Inr []) s) b r g dbg) =
    ((exPush (exEnv (Inr []) s) b r g dbg)
       \<lparr>po_sourcePath := ''/home/dev/app'', po_ignores := [''.git'']\<rparr>,
     [Call_ParseAndValidate ''devfile.yaml'', Call_ValidateDevfileData (Data exManifest),
      Call_GetName, Call_GetAbsPath ''app'', Call_ApplyIgnore [] ''/home/dev/app'',
      Call_NewComponentAdapter ''nodejs'' ''app'' ''app'' exManifest
        (if d then None else Some (KubernetesContext ''myproject'')),
      Call_GetDebugPort, Call_ListURLs,
      Adapter_Push (pushParams (exWorld d j (Some err))
        ((exPush (exEnv (Inr []) s) b r g dbg)
           \<lparr>po_sourcePath := ''/home/dev/app'', po_ignores := [''.git'']\<rparr>))],
     Some (Errorf (''Failed to start component with name nodejs. Error: '' @ Error err)))"
  by (simp add: devfilePushInner_def exWorld_def exEnv_def exPush_def exAdapter_def
      selectPlatformContext_def warnIfURLSInvalid_def Let_def)

lemma ex_inner_urls_fail:
  "devfilePushInner (exWorld d j r0) (exPush (exEnv (Inl err) s) b r g dbg) =
    ((exPush (exEnv (Inl err) s) b r g dbg)
       \<lparr>po_sourcePath := ''/home/dev/app'', po_ignores := [''.git'']\<rparr>,
     [Call_ParseAndValidate ''devfile.yaml'', Call_ValidateDevfileData (Data exManifest),
      Call_GetName, Call_GetAbsPath ''app'', Call_ApplyIgnore [] ''/home/dev/app'',
      Call_NewComponentAdapter ''nodejs'' ''app'' ''app'' exManifest
        (if d then None else Some (KubernetesContext ''myproject'')),
      Call_GetDebugPort, Call_ListURLs],
     Some err)"
  by (simp add: devfilePushInner_def exWorld_def exEnv_def exPush_def exAdapter_def
      selectPlatformContext_def Let_def)

subsection \<open>Failure of a push in and out of JSON mode\<close>

text \<open>
  Claim C1. When the inner push returns an error \<open>e\<close> and JSON output is active,
  \<open>DevfilePush\<close> reports \<open>e\<close> to the event sink exactly once and the process exits
  with status 1, so the error is not returned to the caller. When JSON output is not
  active, the same error is returned to the caller and the event sink is never called.
\<close>

theorem DevfilePush_failure_reported_or_returned:
  assumes "snd (snd (devfilePushInner w po)) = Some e"
  shows "(IsJSON w \<longrightarrow>
            snd (snd (DevfilePush w po)) = Exited 1 \<and>
            filter is_ReportError (fst (snd (DevfilePush w po))) =
              [Call_ReportError e (TimestampNow w)]) \<and>
         (\<not> IsJSON w \<longrightarrow>
            snd (snd (DevfilePush w po)) = Returned (Some e) \<and>
            filter is_ReportError (fst (snd (DevfilePush w po))) = [])"
  using assms by (simp add: DevfilePush_trace DevfilePush_outcome inner_no_ReportError)

theorem DevfilePush_failure_reported_or_returned_witness:
  "snd (snd (devfilePushInner (exWorld False True (Some (Failure ''image pull failed'')))
      (exPush (exEnv (Inr []) None) [] [] [] False))) =
     Some (Errorf ''Failed to start component with name nodejs. Error: image pull failed'') \<and>
   IsJSON (exWorld False True (Some (Failure ''image pull failed''))) \<and>
   snd (snd (DevfilePush (exWorld False True (Some (Failure ''image pull failed'')))
      (exPush (exEnv (Inr []) None) [] [] [] False))) = Exited 1 \<and>
   filter is_ReportError
     (fst (snd (DevfilePush (exWorld False True (Some (Failure ''image pull failed'')))
        (exPush (exEnv (Inr []) None) [] [] [] False)))) =
     [Call_ReportError
        (Errorf ''Failed to start component with name nodejs. Error: image pull failed'')
        ''1604236800.000000''] \<and>
   \<not> IsJSON (exWorld False False (Some (Failure ''image pull failed''))) \<and>
   snd (snd (DevfilePush (exWorld False False (Some (Failure ''image pull failed'')))
      (exPush (exEnv (Inr []) None) [] [] [] False))) =
     Returned
       (Some (Errorf ''Failed to start component with name nodejs. Error: image pull failed'')) \<and>
   filter is_ReportError
     (fst (snd (DevfilePush (exWorld False False (Some (Failure ''image pull failed'')))
        (exPush (exEnv (Inr []) None) [] [] [] False)))) = []"
proof -
  have failed:
    "snd (snd (devfilePushInner (exWorld False j (Some (Failure ''image pull failed'')))
        (exPush (exEnv (Inr []) None) [] [] [] False))) =
     Some (Errorf ''Failed to start component with name nodejs. Error: image pull failed'')"
    for j
    by (simp add: ex_inner_fail)
  show ?thesis
    using DevfilePush_failure_reported_or_returned [OF failed [of True]]
      DevfilePush_failure_reported_or_returned [OF failed [of False]] failed [of True]
    by (simp add: exWorld_def)
qed

subsection \<open>Saving the run mode\<close>

text \<open>
  Claim C2. \<open>SetRunMode\<close> is called exactly once if and only if the inner push succeeds,
  with \<open>Debug\<close> when the debug flag is set and \<open>Run\<close> otherwise; after a failed push it
  is not called; and what \<open>SetRunMode\<close> answers after a successful push, an error
  included, is what \<open>DevfilePush\<close> returns.
\<close>

theorem DevfilePush_SetRunMode_iff_push_succeeds:
  "(snd (snd (devfilePushInner w po)) = None \<longrightarrow>
      filter is_SetRunMode (fst (snd (DevfilePush w po))) =
        [Call_SetRunMode (if po_debugRun po then Debug else Run)] \<and>
      snd (snd (DevfilePush w po)) =
        Returned (SetRunMode (po_EnvSpecificInfo po) (if po_debugRun po then Debug else Run))) \<and>
   (snd (snd (devfilePushInner w po)) \<noteq> None \<longrightarrow>
      filter is_SetRunMode (fst (snd (DevfilePush w po))) = []) \<and>
   (length (filter is_SetRunMode (fst (snd (DevfilePush w po)))) = 1 \<longleftrightarrow>
      snd (snd (devfilePushInner w po)) = None)"
  by (auto simp: DevfilePush_filter_SetRunMode DevfilePush_outcome split: option.splits)

theorem DevfilePush_SetRunMode_iff_push_succeeds_witness:
  "snd (snd (devfilePushInner (exWorld False False None)
      (exPush (exEnv (Inr []) (Some (Failure ''disk full''))) [] [] [] True))) = None \<and>
   filter is_SetRunMode (fst (snd (DevfilePush (exWorld False False None)
      (exPush (exEnv (Inr []) (Some (Failure ''disk full''))) [] [] [] True)))) =
     [Call_SetRunMode Debug] \<and>
   snd (snd (DevfilePush (exWorld False False None)
      (exPush (exEnv (Inr []) (Some (Failure ''disk full''))) [] [] [] True))) =
     Returned (Some (Failure ''disk full'')) \<and>
   filter is_SetRunMode (fst (snd (DevfilePush (exWorld False False None)
      (exPush (exEnv (Inr []) None) [] [] [] False)))) = [Call_SetRunMode Run] \<and>
   snd (snd (devfilePushInner (exWorld False False (Some (Failure ''image pull failed'')))
      (exPush (exEnv (Inr []) None) [] [] [] True))) \<noteq> None \<and>
   filter is_SetRunMode
     (fst (snd (DevfilePush (exWorld False False (Some (Failure ''image pull failed'')))
        (exPush (exEnv (Inr []) None) [] [] [] True)))) = []"
  using DevfilePush_SetRunMode_iff_push_succeeds [of "exWorld False False None"
      "exPush (exEnv (Inr []) (Some (Failure ''disk full''))) [] [] [] True"]
    DevfilePush_SetRunMode_iff_push_succeeds [of "exWorld False False None"
      "exPush (exEnv (Inr []) None) [] [] [] False"]
    DevfilePush_SetRunMode_iff_push_succeeds [of
      "exWorld False False (Some (Failure ''image pull failed''))"
      "exPush (exEnv (Inr []) None) [] [] [] True"]
  by (simp add: ex_inner_ok ex_inner_fail exPush_sel exEnv_sel)

subsection \<open>The command names handed to the adapter\<close>



subsection \<open>The scenario of a manifest with default build and run commands\<close>

text \<open>
  Claim C4, as stated, fails: the names handed to the adapter are the caller's, not the
  manifest's. With the manifest of one default build command \<open>build\<close>, one default run
  command \<open>run\<close> and no debug command, a push without debug and without force whose
  caller supplies no command names calls the adapter with three empty names.
\<close>

theorem DevfilePush_scenario_names_counterexample:
  "ParseAndValidate (exWorld False False None) ''devfile.yaml'' = Inr exManifest \<and>
   commandsOfKind BuildCommandGroupKind (Data exManifest) =
     [\<lparr>CommandId = ''build'', GroupKind = Some BuildCommandGroupKind, IsDefault = True,
       CommandLine = ''npm install''\<rparr>] \<and>
   commandsOfKind RunCommandGroupKind (Data exManifest) =
     [\<lparr>CommandId = ''run'', GroupKind = Some RunCommandGroupKind, IsDefault = True,
       CommandLine = ''npm start''\<rparr>] \<and>
   commandsOfKind DebugCommandGroupKind (Data exManifest) = [] \<and>
   \<not> po_debugRun (exPush (exEnv (Inr []) None) [] [] [] False) \<and>
   \<not> po_forceBuild (exPush (exEnv (Inr []) None) [] [] [] False) \<and>
   filter is_Adapter_Push (fst (snd (DevfilePush (exWorld False False None)
      (exPush (exEnv (Inr []) None) [] [] [] False)))) =
     [Adapter_Push
        \<lparr>Path = ''/home/dev/app'', IgnoredFiles = [''.git''], ForceBuild = False,
         Show = False, EnvSpecificInfo = exEnv (Inr []) None, DevfileBuildCmd = [],
         DevfileRunCmd = [], DevfileDebugCmd = [], Debug_flag = False, DebugPort = 5858\<rparr>] \<and>
   DevfileBuildCmd (pushParams (exWorld False False None)
      (fst (devfilePushInner (exWorld False False None)
         (exPush (exEnv (Inr []) None) [] [] [] False)))) \<noteq> ''build'' \<and>
   DevfileRunCmd (pushParams (exWorld False False None)
      (fst (devfilePushInner (exWorld False False None)
         (exPush (exEnv (Inr []) None) [] [] [] False)))) \<noteq> ''run''"
proof -
  let ?w = "exWorld False False None"
  let ?po = "exPush (exEnv (Inr []) None) [] [] [] False"
  have params: "pushParams ?w (?po\<lparr>po_sourcePath := ''/home/dev/app'', po_ignores := [''.git'']\<rparr>) =
      \<lparr>Path = ''/home/dev/app'', IgnoredFiles = [''.git''], ForceBuild = False,
       Show = False, EnvSpecificInfo = exEnv (Inr []) None, DevfileBuildCmd = [],
       DevfileRunCmd = [], DevfileDebugCmd = [], Debug_flag = False, DebugPort = 5858\<rparr>"
    by (simp add: pushParams_def exPush_def exEnv_sel ToLower_Nil)
  have manifest:
    "ParseAndValidate ?w ''devfile.yaml'' = Inr exManifest"
    "commandsOfKind BuildCommandGroupKind (Data exManifest) =
       [\<lparr>CommandId = ''build'', GroupKind = Some BuildCommandGroupKind, IsDefault = True,
         CommandLine = ''npm install''\<rparr>]"
    "commandsOfKind RunCommandGroupKind (Data exManifest) =
       [\<lparr>CommandId = ''run'', GroupKind = Some RunCommandGroupKind, IsDefault = True,
         CommandLine = ''npm start''\<rparr>]"
    "commandsOfKind DebugCommandGroupKind (Data exManifest) = []"
    by (simp_all add: exWorld_def commandsOfKind_def exManifest_def)
  have flags: "\<not> po_debugRun ?po" "\<not> po_forceBuild ?po"
    by (simp_all add: exPush_sel)
  have calls: "filter is_Adapter_Push (fst (snd (DevfilePush ?w ?po))) =
      [Adapter_Push
         \<lparr>Path = ''/home/dev/app'', IgnoredFiles = [''.git''], ForceBuild = False,
          Show = False, EnvSpecificInfo = exEnv (Inr []) None, DevfileBuildCmd = [],
          DevfileRunCmd = [], DevfileDebugCmd = [], Debug_flag = False, DebugPort = 5858\<rparr>]"
    by (simp add: DevfilePush_filter_Adapter_Push ex_inner_ok params)
  have names:
    "DevfileBuildCmd (pushParams ?w (fst (devfilePushInner ?w ?po))) \<noteq> ''build''"
    "DevfileRunCmd (pushParams ?w (fst (devfilePushInner ?w ?po))) \<noteq> ''run''"
    by (simp_all add: ex_inner_ok params)
  show ?thesis
    by (intro conjI manifest flags calls names)
qed

text \<open>
  What the inner push does when every step before the adapter call succeeds: the whole
  trace, and the error of the adapter wrapped with the component name.
\<close>

lemma inner_run_when_steps_succeed:
  assumes "ParseAndValidate w (po_DevfilePath po) = Inr devObj"
    and "ValidateDevfileData w (Data devObj) = None"
    and "GetAbsPath w (po_componentContext po) = (sourcePath, None)"
    and "ApplyIgnore w (po_ignores po) sourcePath = (ignores, None)"
    and "NewComponentAdapter w (GetName (po_EnvSpecificInfo po)) (po_componentContext po)
           (po_Application po) devObj (selectPlatformContext w (po_Namespace po)) =
         Inr devfileHandler"
    and "ListURLs (po_EnvSpecificInfo po) = Inr localURLs"
  shows "fst (devfilePushInner w po) = po\<lparr>po_sourcePath := sourcePath, po_ignores := ignores\<rparr>"
    and "filter is_Adapter_Push (fst (snd (devfilePushInner w po))) =
           [Adapter_Push (pushParams w (po\<lparr>po_sourcePath := sourcePath, po_ignores := ignores\<rparr>))]"
    and "snd (snd (devfilePushInner w po)) = None \<longleftrightarrow>
           Push devfileHandler
             (pushParams w (po\<lparr>po_sourcePath := sourcePath, po_ignores := ignores\<rparr>)) = None"
  using assms
  by (simp_all add: devfilePushInner_def Let_def warn_not_Adapter_Push split: option.splits)

text \<open>
  Claim C4, amended. For every manifest, the one of the scenario included, a push
  without debug and without force whose caller-supplied build, run and debug command
  names lower-case to \<open>build\<close>, \<open>run\<close> and the empty name calls the adapter's
  \<open>Push\<close> exactly once when the steps before it succeed (parsing, validation, source
  path, ignores, construction of the adapter, listing of the URLs), whether the adapter
  then succeeds or fails, with exactly these three names and with neither the debug nor
  the force flag; and when the adapter succeeds, \<open>SetRunMode\<close> is called once with
  \<open>Run\<close> and its answer is returned. Whatever the steps do, no call of the adapter
  carries other names.
\<close>

theorem DevfilePush_scenario_with_supplied_names:
  assumes "ToLower (unicodeToLower w) (po_devfileBuildCommand po) = ''build''"
    and "ToLower (unicodeToLower w) (po_devfileRunCommand po) = ''run''"
    and "ToLower (unicodeToLower w) (po_devfileDebugCommand po) = []"
    and "\<not> po_debugRun po" and "\<not> po_forceBuild po"
  shows "(\<forall>p. Adapter_Push p \<in> set (fst (snd (DevfilePush w po))) \<longrightarrow>
            DevfileBuildCmd p = ''build'' \<and> DevfileRunCmd p = ''run'' \<and>
            DevfileDebugCmd p = [] \<and> \<not> Debug_flag p \<and> \<not> ForceBuild p) \<and>
         (ParseAndValidate w (po_DevfilePath po) = Inr devObj \<and>
          ValidateDevfileData w (Data devObj) = None \<and>
          GetAbsPath w (po_componentContext po) = (sourcePath, None) \<and>
          ApplyIgnore w (po_ignores po) sourcePath = (ignores, None) \<and>
          NewComponentAdapter w (GetName (po_EnvSpecificInfo po)) (po_componentContext po)
            (po_Application po) devObj (selectPlatformContext w (po_Namespace po)) =
            Inr devfileHandler \<and>
          ListURLs (po_EnvSpecificInfo po) = Inr localURLs \<longrightarrow>
          filter is_Adapter_Push (fst (snd (DevfilePush w po))) =
            [Adapter_Push (pushParams w (po\<lparr>po_sourcePath := sourcePath, po_ignores := ignores\<rparr>))] \<and>
          DevfileBuildCmd (pushParams w (po\<lparr>po_sourcePath := sourcePath, po_ignores := ignores\<rparr>)) =
            ''build'' \<and>
          DevfileRunCmd (pushParams w (po\<lparr>po_sourcePath := sourcePath, po_ignores := ignores\<rparr>)) =
            ''run'' \<and>
          DevfileDebugCmd (pushParams w (po\<lparr>po_sourcePath := sourcePath, po_ignores := ignores\<rparr>)) =
            [] \<and>
          \<not> Debug_flag (pushParams w (po\<lparr>po_sourcePath := sourcePath, po_ignores := ignores\<rparr>)) \<and>
          \<not> ForceBuild (pushParams w (po\<lparr>po_sourcePath := sourcePath, po_ignores := ignores\<rparr>)) \<and>
          (Push devfileHandler
             (pushParams w (po\<lparr>po_sourcePath := sourcePath, po_ignores := ignores\<rparr>)) = None \<longrightarrow>
           filter is_SetRunMode (fst (snd (DevfilePush w po))) = [Call_SetRunMode Run] \<and>
           snd (snd (DevfilePush w po)) = Returned (SetRunMode (po_EnvSpecificInfo po) Run))) \<and>
         (snd (snd (devfilePushInner w po)) = None \<longrightarrow>
            (\<exists>p. filter is_Adapter_Push (fst (snd (DevfilePush w po))) = [Adapter_Push p]) \<and>
            filter is_SetRunMode (fst (snd (DevfilePush w po))) = [Call_SetRunMode Run] \<and>
            snd (snd (DevfilePush w po)) = Returned (SetRunMode (po_EnvSpecificInfo po) Run))"
proof (intro conjI allI impI)
  fix p assume "Adapter_Push p \<in> set (fst (snd (DevfilePush w po)))"
  then have p: "p = pushParams w (fst (devfilePushInner w po))"
    by (simp add: DevfilePush_Adapter_Push_mem inner_Adapter_Push_mem)
  show "DevfileBuildCmd p = ''build''" and "DevfileRunCmd p = ''run''"
    and "DevfileDebugCmd p = []" and "\<not> Debug_flag p" and "\<not> ForceBuild p"
    using assms by (simp_all add: p pushParams_fields)
next
  assume steps: "ParseAndValidate w (po_DevfilePath po) = Inr devObj \<and>
          ValidateDevfileData w (Data devObj) = None \<and>
          GetAbsPath w (po_componentContext po) = (sourcePath, None) \<and>
          ApplyIgnore w (po_ignores po) sourcePath = (ignores, None) \<and>
          NewComponentAdapter w (GetName (po_EnvSpecificInfo po)) (po_componentContext po)
            (po_Application po) devObj (selectPlatformContext w (po_Namespace po)) =
            Inr devfileHandler \<and>
          ListURLs (po_EnvSpecificInfo po) = Inr localURLs"
  let ?params = "pushParams w (po\<lparr>po_sourcePath := sourcePath, po_ignores := ignores\<rparr>)"
  note run = inner_run_when_steps_succeed
    [OF steps [THEN conjunct1] steps [THEN conjunct2, THEN conjunct1]
      steps [THEN conjunct2, THEN conjunct2, THEN conjunct1]
      steps [THEN conjunct2, THEN conjunct2, THEN conjunct2, THEN conjunct1]
      steps [THEN conjunct2, THEN conjunct2, THEN conjunct2, THEN conjunct2, THEN conjunct1]
      steps [THEN conjunct2, THEN conjunct2, THEN conjunct2, THEN conjunct2, THEN conjunct2]]
  note options = run(1)
  note called = run(2)
  note success = run(3)
  show "filter is_Adapter_Push (fst (snd (DevfilePush w po))) = [Adapter_Push ?params]"
    by (simp add: DevfilePush_filter_Adapter_Push called)
  show "DevfileBuildCmd ?params = ''build''" and "DevfileRunCmd ?params = ''run''"
    and "DevfileDebugCmd ?params = []" and "\<not> Debug_flag ?params" and "\<not> ForceBuild ?params"
    using assms pushParams_fields [of w po] by (simp_all add: options)
  {
    assume "Push devfileHandler ?params = None"
    with success have ok: "snd (snd (devfilePushInner w po)) = None"
      by simp
    from ok assms(4)
    show "filter is_SetRunMode (fst (snd (DevfilePush w po))) = [Call_SetRunMode Run]"
      by (simp add: DevfilePush_filter_SetRunMode)
    from ok assms(4)
    show "snd (snd (DevfilePush w po)) = Returned (SetRunMode (po_EnvSpecificInfo po) Run)"
      by (simp add: DevfilePush_outcome)
  }
next
  assume ok: "snd (snd (devfilePushInner w po)) = None"
  then show "\<exists>p. filter is_Adapter_Push (fst (snd (DevfilePush w po))) = [Adapter_Push p]"
    by (simp add: DevfilePush_filter_Adapter_Push inner_success_Adapter_Push)
  from ok assms(4)
  show "filter is_SetRunMode (fst (snd (DevfilePush w po))) = [Call_SetRunMode Run]"
    by (simp add: DevfilePush_filter_SetRunMode)
  from ok assms(4)
  show "snd (snd (DevfilePush w po)) = Returned (SetRunMode (po_EnvSpecificInfo po) Run)"
    by (simp add: DevfilePush_outcome)
qed

theorem DevfilePush_scenario_with_supplied_names_witness:
  "ToLower (unicodeToLower (exWorld False False None))
     (po_devfileBuildCommand (exPush (exEnv (Inr []) None) ''build'' ''run'' [] False)) = ''build'' \<and>
   ToLower (unicodeToLower (exWorld False False None))
     (po_devfileRunCommand (exPush (exEnv (Inr []) None) ''build'' ''run'' [] False)) = ''run'' \<and>
   ToLower (unicodeToLower (exWorld False False None))
     (po_devfileDebugCommand (exPush (exEnv (Inr []) None) ''build'' ''run'' [] False)) = [] \<and>
   \<not> po_debugRun (exPush (exEnv (Inr []) None) ''build'' ''run'' [] False) \<and>
   \<not> po_forceBuild (exPush (exEnv (Inr []) None) ''build'' ''run'' [] False) \<and>
   ParseAndValidate (exWorld False False None)
     (po_DevfilePath (exPush (exEnv (Inr []) None) ''build'' ''run'' [] False)) = Inr exManifest \<and>
   Push (exAdapter None)
     \<lparr>Path = ''/home/dev/app'', IgnoredFiles = [''.git''], ForceBuild = False,
      Show = False, EnvSpecificInfo = exEnv (Inr []) None, DevfileBuildCmd = ''build'',
      DevfileRunCmd = ''run'', DevfileDebugCmd = [], Debug_flag = False,
      DebugPort = 5858\<rparr> = None \<and>
   filter is_Adapter_Push (fst (snd (DevfilePush (exWorld False False None)
      (exPush (exEnv (Inr []) None) ''build'' ''run'' [] False)))) =
     [Adapter_Push
        \<lparr>Path = ''/home/dev/app'', IgnoredFiles = [''.git''], ForceBuild = False,
         Show = False, EnvSpecificInfo = exEnv (Inr []) None, DevfileBuildCmd = ''build'',
         DevfileRunCmd = ''run'', DevfileDebugCmd = [], Debug_flag = False,
         DebugPort = 5858\<rparr>] \<and>
   filter is_SetRunMode (fst (snd (DevfilePush (exWorld False False None)
      (exPush (exEnv (Inr []) None) ''build'' ''run'' [] False)))) = [Call_SetRunMode Run] \<and>
   snd (snd (DevfilePush (exWorld False False None)
      (exPush (exEnv (Inr []) None) ''build'' ''run'' [] False))) = Returned None \<and>
   Push (exAdapter (Some (Failure ''image pull failed'')))
     \<lparr>Path = ''/home/dev/app'', IgnoredFiles = [''.git''], ForceBuild = False,
      Show = False, EnvSpecificInfo = exEnv (Inr []) None, DevfileBuildCmd = ''build'',
      DevfileRunCmd = ''run'', DevfileDebugCmd = [], Debug_flag = False,
      DebugPort = 5858\<rparr> = Some (Failure ''image pull failed'') \<and>
   filter is_Adapter_Push
     (fst (snd (DevfilePush (exWorld False False (Some (Failure ''image pull failed'')))
        (exPush (exEnv (Inr []) None) ''build'' ''run'' [] False)))) =
     [Adapter_Push
        \<lparr>Path = ''/home/dev/app'', IgnoredFiles = [''.git''], ForceBuild = False,
         Show = False, EnvSpecificInfo = exEnv (Inr []) None, DevfileBuildCmd = ''build'',
         DevfileRunCmd = ''run'', DevfileDebugCmd = [], Debug_flag = False,
         DebugPort = 5858\<rparr>]"
proof -
  let ?po = "exPush (exEnv (Inr []) None) ''build'' ''run'' [] False"
  let ?params = "\<lparr>Path = ''/home/dev/app'', IgnoredFiles = [''.git''], ForceBuild = False,
      Show = False, EnvSpecificInfo = exEnv (Inr []) None, DevfileBuildCmd = ''build'',
      DevfileRunCmd = ''run'', DevfileDebugCmd = [], Debug_flag = False, DebugPort = 5858\<rparr>"
  have lower: "unicodeToLower (exWorld False False r) = (\<lambda>s. s)" for r
    by (simp add: exWorld_def)
  have names:
    "ToLower (unicodeToLower (exWorld False False r)) (po_devfileBuildCommand ?po) = ''build''"
    "ToLower (unicodeToLower (exWorld False False r)) (po_devfileRunCommand ?po) = ''run''"
    "ToLower (unicodeToLower (exWorld False False r)) (po_devfileDebugCommand ?po) = []" for r
    by (simp_all add: lower exPush_sel ToLower_examples ToLower_Nil)
  have flags: "\<not> po_debugRun ?po" "\<not> po_forceBuild ?po"
    by (simp_all add: exPush_sel)
  have parse: "ParseAndValidate (exWorld False False r) (po_DevfilePath ?po) = Inr exManifest" for r
    by (simp add: exWorld_def)
  have steps: "ParseAndValidate (exWorld False False r) (po_DevfilePath ?po) = Inr exManifest \<and>
      ValidateDevfileData (exWorld False False r) (Data exManifest) = None \<and>
      GetAbsPath (exWorld False False r) (po_componentContext ?po) = (''/home/dev/app'', None) \<and>
      ApplyIgnore (exWorld False False r) (po_ignores ?po) ''/home/dev/app'' = ([''.git''], None) \<and>
      NewComponentAdapter (exWorld False False r) (GetName (po_EnvSpecificInfo ?po))
        (po_componentContext ?po) (po_Application ?po) exManifest
        (selectPlatformContext (exWorld False False r) (po_Namespace ?po)) = Inr (exAdapter r) \<and>
      ListURLs (po_EnvSpecificInfo ?po) = Inr []" for r
    by (simp add: exWorld_def exPush_def exEnv_def)
  have params: "pushParams (exWorld False False r)
      (?po\<lparr>po_sourcePath := ''/home/dev/app'', po_ignores := [''.git'']\<rparr>) = ?params" for r
    by (simp add: pushParams_def lower exPush_def exEnv_sel ToLower_examples ToLower_Nil)
  have adapter_ok: "Push (exAdapter None) ?params = None"
    by (simp add: exAdapter_def)
  have adapter_fails: "Push (exAdapter (Some (Failure ''image pull failed''))) ?params =
      Some (Failure ''image pull failed'')"
    by (simp add: exAdapter_def)
  note succeeded = DevfilePush_scenario_with_supplied_names
    [where w = "exWorld False False None" and po = ?po and devObj = exManifest
       and sourcePath = "''/home/dev/app''" and ignores = "[''.git'']"
       and devfileHandler = "exAdapter None" and localURLs = "[]",
     OF names flags, THEN conjunct2, THEN conjunct1, THEN mp, OF steps, unfolded params]
  note failed = DevfilePush_scenario_with_supplied_names
    [where w = "exWorld False False (Some (Failure ''image pull failed''))" and po = ?po
       and devObj = exManifest and sourcePath = "''/home/dev/app''" and ignores = "[''.git'']"
       and devfileHandler = "exAdapter (Some (Failure ''image pull failed''))"
       and localURLs = "[]",
     OF names flags, THEN conjunct2, THEN conjunct1, THEN mp, OF steps, unfolded params]
  have calls_ok: "filter is_Adapter_Push
      (fst (snd (DevfilePush (exWorld False False None) ?po))) = [Adapter_Push ?params]"
    using succeeded by (rule conjunct1)
  have calls_failed: "filter is_Adapter_Push
      (fst (snd (DevfilePush (exWorld False False (Some (Failure ''image pull failed''))) ?po))) =
      [Adapter_Push ?params]"
    using failed by (rule conjunct1)
  have after: "Push (exAdapter None) ?params = None \<longrightarrow>
      filter is_SetRunMode (fst (snd (DevfilePush (exWorld False False None) ?po))) =
        [Call_SetRunMode Run] \<and>
      snd (snd (DevfilePush (exWorld False False None) ?po)) =
        Returned (SetRunMode (po_EnvSpecificInfo ?po) Run)"
    using succeeded by blast
  from after adapter_ok
  have saved: "filter is_SetRunMode (fst (snd (DevfilePush (exWorld False False None) ?po))) =
      [Call_SetRunMode Run]"
    and result: "snd (snd (DevfilePush (exWorld False False None) ?po)) =
      Returned (SetRunMode (po_EnvSpecificInfo ?po) Run)"
    by blast+
  have result': "snd (snd (DevfilePush (exWorld False False None) ?po)) = Returned None"
    using result by (simp add: exPush_sel exEnv_sel)
  show ?thesis
    by (intro conjI names flags parse adapter_ok calls_ok saved result' adapter_fails calls_failed)
qed

subsection \<open>Listing the URLs before the adapter is called\<close>

lemma inner_urls_fail_no_push:
  "ListURLs (po_EnvSpecificInfo po) = Inl err \<Longrightarrow>
   filter is_Adapter_Push (fst (snd (devfilePushInner w po))) = [] \<and>
   snd (snd (devfilePushInner w po)) \<noteq> None"
  by (simp add: devfilePushInner_def Let_def split: sum.splits option.splits)

text \<open>
  Claim C10. When the steps before it succeed, the inner push reads the debug port (the
  last field of the push parameters), then lists the URLs, then runs the URL check, and
  only then calls the adapter's \<open>Push\<close> with the parameters built before. When listing
  the URLs fails, the inner push returns that error and the adapter is not called;
  \<open>DevfilePush\<close> then does not call \<open>SetRunMode\<close> and ends with that error (returned,
  or in JSON mode reported with exit status 1). Whatever the other steps do, a failing
  URL listing excludes both the adapter call and the \<open>SetRunMode\<close> call.
\<close>

theorem devfilePushInner_lists_urls_before_adapter_push:
  "(\<forall>err. ListURLs (po_EnvSpecificInfo po) = Inl err \<longrightarrow>
      filter is_Adapter_Push (fst (snd (DevfilePush w po))) = [] \<and>
      filter is_SetRunMode (fst (snd (DevfilePush w po))) = []) \<and>
   (ParseAndValidate w (po_DevfilePath po) = Inr devObj \<and>
    ValidateDevfileData w (Data devObj) = None \<and>
    GetAbsPath w (po_componentContext po) = (sourcePath, None) \<and>
    ApplyIgnore w (po_ignores po) sourcePath = (ignores, None) \<and>
    NewComponentAdapter w (GetName (po_EnvSpecificInfo po)) (po_componentContext po)
      (po_Application po) devObj (selectPlatformContext w (po_Namespace po)) =
      Inr devfileHandler \<longrightarrow>
    (\<forall>localURLs. ListURLs (po_EnvSpecificInfo po) = Inr localURLs \<longrightarrow>
       fst (snd (devfilePushInner w po)) =
         [Call_ParseAndValidate (po_DevfilePath po), Call_ValidateDevfileData (Data devObj),
          Call_GetName, Call_GetAbsPath (po_componentContext po),
          Call_ApplyIgnore (po_ignores po) sourcePath,
          Call_NewComponentAdapter (GetName (po_EnvSpecificInfo po)) (po_componentContext po)
            (po_Application po) devObj (selectPlatformContext w (po_Namespace po)),
          Call_GetDebugPort, Call_ListURLs] @
         warnIfURLSInvalid (IsPushTargetDocker w) localURLs @
         Adapter_Push (pushParams w (po\<lparr>po_sourcePath := sourcePath, po_ignores := ignores\<rparr>)) #
         (case Push devfileHandler
                 (pushParams w (po\<lparr>po_sourcePath := sourcePath, po_ignores := ignores\<rparr>)) of
            None \<Rightarrow>
              [Log_Infof (CHR 0x0A # ''Pushing devfile component '' @
                 GetName (po_EnvSpecificInfo po)),
               Log_Success ''Changes successfully pushed to component'']
          | Some e \<Rightarrow> [])) \<and>
    (\<forall>err. ListURLs (po_EnvSpecificInfo po) = Inl err \<longrightarrow>
       snd (devfilePushInner w po) =
         ([Call_ParseAndValidate (po_DevfilePath po), Call_ValidateDevfileData (Data devObj),
           Call_GetName, Call_GetAbsPath (po_componentContext po),
           Call_ApplyIgnore (po_ignores po) sourcePath,
           Call_NewComponentAdapter (GetName (po_EnvSpecificInfo po)) (po_componentContext po)
             (po_Application po) devObj (selectPlatformContext w (po_Namespace po)),
           Call_GetDebugPort, Call_ListURLs],
          Some err) \<and>
       snd (snd (DevfilePush w po)) = (if IsJSON w then Exited 1 else Returned (Some err))))"
proof (intro conjI allI impI)
  fix err assume "ListURLs (po_EnvSpecificInfo po) = Inl err"
  from inner_urls_fail_no_push [OF this, of w]
  show "filter is_Adapter_Push (fst (snd (DevfilePush w po))) = []"
    and "filter is_SetRunMode (fst (snd (DevfilePush w po))) = []"
    by (auto simp: DevfilePush_filter_Adapter_Push DevfilePush_filter_SetRunMode)
next
  fix localURLs
  assume "ParseAndValidate w (po_DevfilePath po) = Inr devObj \<and>
    ValidateDevfileData w (Data devObj) = None \<and>
    GetAbsPath w (po_componentContext po) = (sourcePath, None) \<and>
    ApplyIgnore w (po_ignores po) sourcePath = (ignores, None) \<and>
    NewComponentAdapter w (GetName (po_EnvSpecificInfo po)) (po_componentContext po)
      (po_Application po) devObj (selectPlatformContext w (po_Namespace po)) =
      Inr devfileHandler"
    and "ListURLs (po_EnvSpecificInfo po) = Inr localURLs"
  then show "fst (snd (devfilePushInner w po)) =
         [Call_ParseAndValidate (po_DevfilePath po), Call_ValidateDevfileData (Data devObj),
          Call_GetName, Call_GetAbsPath (po_componentContext po),
          Call_ApplyIgnore (po_ignores po) sourcePath,
          Call_NewComponentAdapter (GetName (po_EnvSpecificInfo po)) (po_componentContext po)
            (po_Application po) devObj (selectPlatformContext w (po_Namespace po)),
          Call_GetDebugPort, Call_ListURLs] @
         warnIfURLSInvalid (IsPushTargetDocker w) localURLs @
         Adapter_Push (pushParams w (po\<lparr>po_sourcePath := sourcePath, po_ignores := ignores\<rparr>)) #
         (case Push devfileHandler
                 (pushParams w (po\<lparr>po_sourcePath := sourcePath, po_ignores := ignores\<rparr>)) of
            None \<Rightarrow>
              [Log_Infof (CHR 0x0A # ''Pushing devfile component '' @
                 GetName (po_EnvSpecificInfo po)),
               Log_Success ''Changes successfully pushed to component'']
          | Some e \<Rightarrow> [])"
    by (simp add: devfilePushInner_def Let_def split: option.splits)
next
  fix err
  assume steps: "ParseAndValidate w (po_DevfilePath po) = Inr devObj \<and>
    ValidateDevfileData w (Data devObj) = None \<and>
    GetAbsPath w (po_componentContext po) = (sourcePath, None) \<and>
    ApplyIgnore w (po_ignores po) sourcePath = (ignores, None) \<and>
    NewComponentAdapter w (GetName (po_EnvSpecificInfo po)) (po_componentContext po)
      (po_Application po) devObj (selectPlatformContext w (po_Namespace po)) =
      Inr devfileHandler"
    and urls: "ListURLs (po_EnvSpecificInfo po) = Inl err"
  then show inner: "snd (devfilePushInner w po) =
         ([Call_ParseAndValidate (po_DevfilePath po), Call_ValidateDevfileData (Data devObj),
           Call_GetName, Call_GetAbsPath (po_componentContext po),
           Call_ApplyIgnore (po_ignores po) sourcePath,
           Call_NewComponentAdapter (GetName (po_EnvSpecificInfo po)) (po_componentContext po)
             (po_Application po) devObj (selectPlatformContext w (po_Namespace po)),
           Call_GetDebugPort, Call_ListURLs],
          Some err)"
    by (simp add: devfilePushInner_def Let_def)
  then show "snd (snd (DevfilePush w po)) = (if IsJSON w then Exited 1 else Returned (Some err))"
    by (simp add: DevfilePush_outcome)
qed

theorem devfilePushInner_lists_urls_before_adapter_push_witness:
  "ListURLs (po_EnvSpecificInfo
      (exPush (exEnv (Inl (Failure ''cannot read env.yaml'')) None) [] [] [] False)) =
     Inl (Failure ''cannot read env.yaml'') \<and>
   snd (devfilePushInner (exWorld False False None)
      (exPush (exEnv (Inl (Failure ''cannot read env.yaml'')) None) [] [] [] False)) =
     ([Call_ParseAndValidate ''devfile.yaml'', Call_ValidateDevfileData (Data exManifest),
       Call_GetName, Call_GetAbsPath ''app'', Call_ApplyIgnore [] ''/home/dev/app'',
       Call_NewComponentAdapter ''nodejs'' ''app'' ''app'' exManifest
         (Some (KubernetesContext ''myproject'')),
       Call_GetDebugPort, Call_ListURLs],
      Some (Failure ''cannot read env.yaml'')) \<and>
   snd (snd (DevfilePush (exWorld False False None)
      (exPush (exEnv (Inl (Failure ''cannot read env.yaml'')) None) [] [] [] False))) =
     Returned (Some (Failure ''cannot read env.yaml'')) \<and>
   filter is_Adapter_Push (fst (snd (DevfilePush (exWorld False False None)
      (exPush (exEnv (Inl (Failure ''cannot read env.yaml'')) None) [] [] [] False)))) = [] \<and>
   filter is_SetRunMode (fst (snd (DevfilePush (exWorld False False None)
      (exPush (exEnv (Inl (Failure ''cannot read env.yaml'')) None) [] [] [] False)))) = [] \<and>
   fst (snd (devfilePushInner (exWorld False False None)
      (exPush (exEnv (Inr [\<lparr>Name = ''web'', Port = 3000, Kind = DOCKER\<rparr>]) None)
         [] [] [] False))) =
     [Call_ParseAndValidate ''devfile.yaml'', Call_ValidateDevfileData (Data exManifest),
      Call_GetName, Call_GetAbsPath ''app'', Call_ApplyIgnore [] ''/home/dev/app'',
      Call_NewComponentAdapter ''nodejs'' ''app'' ''app'' exManifest
        (Some (KubernetesContext ''myproject'')),
      Call_GetDebugPort, Call_ListURLs,
      Log_Warningf ''Found a URL defined for Docker, but no valid URLs for Kubernetes.'',
      Adapter_Push (pushParams (exWorld False False None)
        ((exPush (exEnv (Inr [\<lparr>Name = ''web'', Port = 3000, Kind = DOCKER\<rparr>]) None)
            [] [] [] False)
           \<lparr>po_sourcePath := ''/home/dev/app'', po_ignores := [''.git'']\<rparr>)),
      Log_Infof (CHR 0x0A # ''Pushing devfile component nodejs''),
      Log_Success ''Changes successfully pushed to component'']"
proof -
  let ?w = "exWorld False False None"
  let ?bad = "exPush (exEnv (Inl (Failure ''cannot read env.yaml'')) None) [] [] [] False"
  let ?good = "exPush (exEnv (Inr [\<lparr>Name = ''web'', Port = 3000, Kind = DOCKER\<rparr>]) None)
      [] [] [] False"
  have steps: "ParseAndValidate ?w (po_DevfilePath (exPush esi [] [] [] False)) = Inr exManifest \<and>
      ValidateDevfileData ?w (Data exManifest) = None \<and>
      GetAbsPath ?w (po_componentContext (exPush esi [] [] [] False)) = (''/home/dev/app'', None) \<and>
      ApplyIgnore ?w (po_ignores (exPush esi [] [] [] False)) ''/home/dev/app'' =
        ([''.git''], None) \<and>
      NewComponentAdapter ?w (GetName (po_EnvSpecificInfo (exPush esi [] [] [] False)))
        (po_componentContext (exPush esi [] [] [] False))
        (po_Application (exPush esi [] [] [] False)) exManifest
        (selectPlatformContext ?w (po_Namespace (exPush esi [] [] [] False))) =
        Inr (exAdapter None)" for esi
    by (simp add: exWorld_def exPush_def)
  have urls_bad: "ListURLs (po_EnvSpecificInfo ?bad) = Inl (Failure ''cannot read env.yaml'')"
    by (simp add: exPush_sel exEnv_sel)
  have urls_good: "ListURLs (po_EnvSpecificInfo ?good) =
      Inr [\<lparr>Name = ''web'', Port = 3000, Kind = DOCKER\<rparr>]"
    by (simp add: exPush_sel exEnv_sel)
  note bad = devfilePushInner_lists_urls_before_adapter_push
    [where w = ?w and po = ?bad and devObj = exManifest and sourcePath = "''/home/dev/app''"
       and ignores = "[''.git'']" and devfileHandler = "exAdapter None"]
  note good = devfilePushInner_lists_urls_before_adapter_push
    [where w = ?w and po = ?good and devObj = exManifest and sourcePath = "''/home/dev/app''"
       and ignores = "[''.git'']" and devfileHandler = "exAdapter None"]
  note no_calls = bad [THEN conjunct1, THEN spec, THEN mp, OF urls_bad]
  note aborted = bad [THEN conjunct2, THEN mp, OF steps, THEN conjunct2, THEN spec, THEN mp,
      OF urls_bad]
  note ordered = good [THEN conjunct2, THEN mp, OF steps, THEN conjunct1, THEN spec, THEN mp,
      OF urls_good]
  have inner_bad: "snd (devfilePushInner ?w ?bad) =
     ([Call_ParseAndValidate ''devfile.yaml'', Call_ValidateDevfileData (Data exManifest),
       Call_GetName, Call_GetAbsPath ''app'', Call_ApplyIgnore [] ''/home/dev/app'',
       Call_NewComponentAdapter ''nodejs'' ''app'' ''app'' exManifest
         (Some (KubernetesContext ''myproject'')),
       Call_GetDebugPort, Call_ListURLs],
      Some (Failure ''cannot read env.yaml''))"
    using aborted [THEN conjunct1]
    by (simp add: exPush_def exEnv_def exWorld_def selectPlatformContext_def)
  have outcome_bad: "snd (snd (DevfilePush ?w ?bad)) =
      Returned (Some (Failure ''cannot read env.yaml''))"
    using aborted [THEN conjunct2] by (simp add: exWorld_def)
  have inner_good: "fst (snd (devfilePushInner ?w ?good)) =
     [Call_ParseAndValidate ''devfile.yaml'', Call_ValidateDevfileData (Data exManifest),
      Call_GetName, Call_GetAbsPath ''app'', Call_ApplyIgnore [] ''/home/dev/app'',
      Call_NewComponentAdapter ''nodejs'' ''app'' ''app'' exManifest
        (Some (KubernetesContext ''myproject'')),
      Call_GetDebugPort, Call_ListURLs,
      Log_Warningf ''Found a URL defined for Docker, but no valid URLs for Kubernetes.'',
      Adapter_Push (pushParams ?w
        (?good\<lparr>po_sourcePath := ''/home/dev/app'', po_ignores := [''.git'']\<rparr>)),
      Log_Infof (CHR 0x0A # ''Pushing devfile component nodejs''),
      Log_Success ''Changes successfully pushed to component'']"
    unfolding ordered
    by (simp add: exPush_def exEnv_def exWorld_def exAdapter_def selectPlatformContext_def
        warnIfURLSInvalid_def)
  show ?thesis
    by (intro conjI urls_bad inner_bad outcome_bad no_calls [THEN conjunct1]
        no_calls [THEN conjunct2] inner_good)
qed

section \<open>Properties of the URL check\<close>

text \<open>The two flags of the loop: a URL of kind \<open>DOCKER\<close> exists, a URL of another kind exists.\<close>

lemma urlKindsExist_eq:
  "urlKindsExist url (d, k) =
     (d \<or> filter (\<lambda>u. Kind u = DOCKER) url \<noteq> [], k \<or> filter (\<lambda>u. Kind u \<noteq> DOCKER) url \<noteq> [])"
  by (induction url arbitrary: d k) auto

text \<open>
  Claim C7. \<open>warnIfURLSInvalid\<close> writes a warning if and only if the URLs of the
  active platform are none while the URLs of the other platform are some, for the local
  engine (kind \<open>DOCKER\<close>) and for the cluster (every other kind) alike. It writes at most
  one line, and nothing but warnings: it has no error to return, and the URL list is
  read and never written.
\<close>

theorem warnIfURLSInvalid_warns_iff_mismatch:
  "(warnIfURLSInvalid isPushTargetDocker url \<noteq> [] \<longleftrightarrow>
      (if isPushTargetDocker
       then filter (\<lambda>u. Kind u = DOCKER) url = [] \<and> filter (\<lambda>u. Kind u \<noteq> DOCKER) url \<noteq> []
       else filter (\<lambda>u. Kind u \<noteq> DOCKER) url = [] \<and> filter (\<lambda>u. Kind u = DOCKER) url \<noteq> [])) \<and>
   length (warnIfURLSInvalid isPushTargetDocker url) \<le> 1 \<and>
   (\<forall>e \<in> set (warnIfURLSInvalid isPushTargetDocker url). is_Warningf e)"
  by (simp add: warnIfURLSInvalid_def urlKindsExist_eq Let_def)

theorem warnIfURLSInvalid_warns_iff_mismatch_witness:
  "warnIfURLSInvalid True
     [\<lparr>Name = ''web'', Port = 3000, Kind = INGRESS\<rparr>, \<lparr>Name = ''api'', Port = 8080, Kind = ROUTE\<rparr>] =
     [Log_Warningf ''Found URLs defined for Kubernetes, but no valid URLs for Docker.''] \<and>
   filter (\<lambda>u. Kind u = DOCKER)
     [\<lparr>Name = ''web'', Port = 3000, Kind = INGRESS\<rparr>, \<lparr>Name = ''api'', Port = 8080, Kind = ROUTE\<rparr>] = [] \<and>
   is_Warningf (Log_Warningf ''Found URLs defined for Kubernetes, but no valid URLs for Docker.'') \<and>
   warnIfURLSInvalid False
     [\<lparr>Name = ''web'', Port = 3000, Kind = INGRESS\<rparr>, \<lparr>Name = ''api'', Port = 8080, Kind = ROUTE\<rparr>] = [] \<and>
   warnIfURLSInvalid True
     [\<lparr>Name = ''web'', Port = 3000, Kind = INGRESS\<rparr>, \<lparr>Name = ''local'', Port = 8080, Kind = DOCKER\<rparr>] = []"
proof -
  let ?kube = "[\<lparr>Name = ''web'', Port = 3000, Kind = INGRESS\<rparr>,
                \<lparr>Name = ''api'', Port = 8080, Kind = ROUTE\<rparr>]"
  let ?both = "[\<lparr>Name = ''web'', Port = 3000, Kind = INGRESS\<rparr>,
                \<lparr>Name = ''local'', Port = 8080, Kind = DOCKER\<rparr>]"
  have warned: "warnIfURLSInvalid True ?kube =
      [Log_Warningf ''Found URLs defined for Kubernetes, but no valid URLs for Docker.'']"
    by (simp add: warnIfURLSInvalid_def)
  have none: "filter (\<lambda>u. Kind u = DOCKER) ?kube = []"
    by simp
  note warnIfURLSInvalid_warns_iff_mismatch [of True ?kube, THEN conjunct2, THEN conjunct2]
  then have only_warnings:
    "is_Warningf (Log_Warningf ''Found URLs defined for Kubernetes, but no valid URLs for Docker.'')"
    by (simp add: warned)
  from warnIfURLSInvalid_warns_iff_mismatch [of False ?kube]
  have silent_cluster: "warnIfURLSInvalid False ?kube = []"
    by simp
  from warnIfURLSInvalid_warns_iff_mismatch [of True ?both]
  have silent_both: "warnIfURLSInvalid True ?both = []"
    by simp
  show ?thesis
    by (intro conjI warned none only_warnings silent_cluster silent_both)
qed

section \<open>Properties of Log\<close>

lemma exLog_sel:
  "lo_devfilePath (exLog debug) = ''devfile.yaml''"
  "lo_EnvSpecificInfo (exLog debug) = exEnv (Inr []) None"
  "lo_Namespace (exLog debug) = ''myproject''"
  "lo_componentContext (exLog debug) = ''app''"
  "lo_Application (exLog debug) = ''app''"
  "lo_debug (exLog debug) = debug"
  "lo_logFollow (exLog debug) = False"
  by (simp_all add: exLog_def)

lemma exManifest_kinds:
  "commandsOfKind DebugCommandGroupKind (Data exManifest) = []"
  "commandsOfKind RunCommandGroupKind (Data exManifest) =
     [\<lparr>CommandId = ''run'', GroupKind = Some RunCommandGroupKind, IsDefault = True,
       CommandLine = ''npm start''\<rparr>]"
  by (simp_all add: commandsOfKind_def exManifest_def)

lemma noDebugCommandFound_message:
  "Error noDebugCommandFound =
     ''no debug command found in devfile, please run '' @ [CHR 0x22] @ ''odo log'' @
     [CHR 0x22] @ '' for run command logs''"
  by (simp add: noDebugCommandFound_def)

text \<open>The output mode is not read by Log.\<close>

lemma logCommand_ignores_IsJSON:
  "logCommand (w\<lparr>IsJSON := j\<rparr>) lo d = logCommand w lo d"
  by (simp add: logCommand_def)

lemma DevfileComponentLog_ignores_IsJSON:
  "DevfileComponentLog (w\<lparr>IsJSON := j\<rparr>) lo = DevfileComponentLog w lo"
  by (simp add: DevfileComponentLog_def logCommand_ignores_IsJSON selectPlatformContext_def
      Let_def split: sum.splits option.splits)

subsection \<open>A manifest without debug command\<close>

text \<open>
  Claim C5, as stated, fails: the adapter is constructed before the debug command is
  looked up. With the manifest without debug command and the debug flag set, Log
  constructs the adapter and then fails with the message that no debug command was
  found; and when the construction of the adapter fails, Log fails with that error and
  the debug command is not looked up at all.
\<close>

theorem DevfileComponentLog_adapter_before_lookup_counterexample:
  "lo_debug (exLog True) \<and>
   commandsOfKind DebugCommandGroupKind (Data exManifest) = [] \<and>
   DevfileComponentLog (exWorld False False None) (exLog True) =
     ([Call_ParseAndValidate ''devfile.yaml'', Call_ValidateDevfileData (Data exManifest),
       Call_GetName,
       Call_NewComponentAdapter ''nodejs'' ''app'' ''app'' exManifest
         (Some (KubernetesContext ''myproject'')),
       Call_GetDebugCommand (Data exManifest) []],
      Returned (Some noDebugCommandFound)) \<and>
   DevfileComponentLog exWorldNoCluster (exLog True) =
     ([Call_ParseAndValidate ''devfile.yaml'', Call_ValidateDevfileData (Data exManifest),
       Call_GetName,
       Call_NewComponentAdapter ''nodejs'' ''app'' ''app'' exManifest
         (Some (KubernetesContext ''myproject''))],
      Returned (Some (Failure ''cannot reach the cluster'')))"
  by (simp add: DevfileComponentLog_def logCommand_def exWorldNoCluster_def exWorld_def
      exLog_sel exEnv_sel exManifest_kinds selectPlatformContext_def Let_def)

text \<open>
  Claim C5, amended. For every Log invocation with the debug flag set in which parsing,
  validation and the construction of the adapter succeed and the lookup of the debug
  command finds none (it answers with the zero command and no error), Log returns the
  error whose message says that no debug command was found and names \<open>odo log\<close>; the
  adapter has been constructed by then, and its \<open>Log\<close> is not called.
\<close>

theorem DevfileComponentLog_no_debug_command:
  assumes "lo_debug lo"
    and "ParseAndValidate w (lo_devfilePath lo) = Inr devObj"
    and "ValidateDevfileData w (Data devObj) = None"
    and "NewComponentAdapter w (GetName (lo_EnvSpecificInfo lo)) (lo_componentContext lo)
           (lo_Application lo) devObj (selectPlatformContext w (lo_Namespace lo)) =
         Inr devfileHandler"
    and "GetDebugCommand w (Data devObj) [] = Inr emptyCommand"
  shows "DevfileComponentLog w lo =
           ([Call_ParseAndValidate (lo_devfilePath lo), Call_ValidateDevfileData (Data devObj),
             Call_GetName,
             Call_NewComponentAdapter (GetName (lo_EnvSpecificInfo lo)) (lo_componentContext lo)
               (lo_Application lo) devObj (selectPlatformContext w (lo_Namespace lo)),
             Call_GetDebugCommand (Data devObj) []],
            Returned (Some noDebugCommandFound)) \<and>
         Error noDebugCommandFound =
           ''no debug command found in devfile, please run '' @ [CHR 0x22] @ ''odo log'' @
           [CHR 0x22] @ '' for run command logs'' \<and>
         filter is_Adapter_Log (fst (DevfileComponentLog w lo)) = []"
proof -
  have run: "DevfileComponentLog w lo =
           ([Call_ParseAndValidate (lo_devfilePath lo), Call_ValidateDevfileData (Data devObj),
             Call_GetName,
             Call_NewComponentAdapter (GetName (lo_EnvSpecificInfo lo)) (lo_componentContext lo)
               (lo_Application lo) devObj (selectPlatformContext w (lo_Namespace lo)),
             Call_GetDebugCommand (Data devObj) []],
            Returned (Some noDebugCommandFound))"
    using assms by (simp add: DevfileComponentLog_def logCommand_def Let_def)
  show ?thesis
    by (simp add: run noDebugCommandFound_message)
qed

theorem DevfileComponentLog_no_debug_command_witness:
  "lo_debug (exLog True) \<and>
   ParseAndValidate (exWorld True False None) (lo_devfilePath (exLog True)) = Inr exManifest \<and>
   GetDebugCommand (exWorld True False None) (Data exManifest) [] = Inr emptyCommand \<and>
   DevfileComponentLog (exWorld True False None) (exLog True) =
     ([Call_ParseAndValidate ''devfile.yaml'', Call_ValidateDevfileData (Data exManifest),
       Call_GetName, Call_NewComponentAdapter ''nodejs'' ''app'' ''app'' exManifest None,
       Call_GetDebugCommand (Data exManifest) []],
      Returned (Some noDebugCommandFound)) \<and>
   filter is_Adapter_Log (fst (DevfileComponentLog (exWorld True False None) (exLog True))) = []"
proof -
  let ?w = "exWorld True False None"
  have debug: "lo_debug (exLog True)"
    by (simp add: exLog_sel)
  have parse: "ParseAndValidate ?w (lo_devfilePath (exLog True)) = Inr exManifest"
    by (simp add: exWorld_def)
  have valid: "ValidateDevfileData ?w (Data exManifest) = None"
    by (simp add: exWorld_def)
  have adapter: "NewComponentAdapter ?w (GetName (lo_EnvSpecificInfo (exLog True)))
      (lo_componentContext (exLog True)) (lo_Application (exLog True)) exManifest
      (selectPlatformContext ?w (lo_Namespace (exLog True))) = Inr (exAdapter None)"
    by (simp add: exWorld_def)
  have lookup: "GetDebugCommand ?w (Data exManifest) [] = Inr emptyCommand"
    by (simp add: exWorld_def exManifest_kinds)
  note failed = DevfileComponentLog_no_debug_command [OF debug parse valid adapter lookup]
  have run: "DevfileComponentLog ?w (exLog True) =
     ([Call_ParseAndValidate ''devfile.yaml'', Call_ValidateDevfileData (Data exManifest),
       Call_GetName, Call_NewComponentAdapter ''nodejs'' ''app'' ''app'' exManifest None,
       Call_GetDebugCommand (Data exManifest) []],
      Returned (Some noDebugCommandFound))"
    using failed [THEN conjunct1]
    by (simp add: exLog_sel exEnv_sel selectPlatformContext_def exWorld_def)
  show ?thesis
    by (intro conjI debug parse lookup run failed [THEN conjunct2, THEN conjunct2])
qed

subsection \<open>A failing log call of the adapter\<close>

text \<open>
  Claim C6. When the adapter's \<open>Log\<close> returns an error, \<open>DevfileComponentLog\<close> writes
  the error to the error log and exits the process with status 1: it does not return,
  so the adapter's error never reaches its caller, and it does so in JSON mode and out
  of it alike.
\<close>

theorem DevfileComponentLog_adapter_error_exits:
  assumes "ParseAndValidate w (lo_devfilePath lo) = Inr devObj"
    and "ValidateDevfileData w (Data devObj) = None"
    and "NewComponentAdapter w (GetName (lo_EnvSpecificInfo lo)) (lo_componentContext lo)
           (lo_Application lo) devObj (selectPlatformContext w (lo_Namespace lo)) =
         Inr devfileHandler"
    and "snd (logCommand w lo (Data devObj)) = Inr command"
    and "Log devfileHandler (lo_logFollow lo) command = Inl err"
  shows "DevfileComponentLog w lo =
           ([Call_ParseAndValidate (lo_devfilePath lo), Call_ValidateDevfileData (Data devObj),
             Call_GetName,
             Call_NewComponentAdapter (GetName (lo_EnvSpecificInfo lo)) (lo_componentContext lo)
               (lo_Application lo) devObj (selectPlatformContext w (lo_Namespace lo))] @
            fst (logCommand w lo (Data devObj)) @
            [Adapter_Log (lo_logFollow lo) command,
             Log_Errorf (''Failed to log component with name '' @
               GetName (lo_EnvSpecificInfo lo) @ ''.'' @ [CHR 0x0A] @ ''Error: '' @ Error err)],
            Exited 1) \<and>
         (\<forall>e. snd (DevfileComponentLog w lo) \<noteq> Returned e) \<and>
         (\<forall>j. DevfileComponentLog (w\<lparr>IsJSON := j\<rparr>) lo = DevfileComponentLog w lo)"
proof -
  have run: "DevfileComponentLog w lo =
           ([Call_ParseAndValidate (lo_devfilePath lo), Call_ValidateDevfileData (Data devObj),
             Call_GetName,
             Call_NewComponentAdapter (GetName (lo_EnvSpecificInfo lo)) (lo_componentContext lo)
               (lo_Application lo) devObj (selectPlatformContext w (lo_Namespace lo))] @
            fst (logCommand w lo (Data devObj)) @
            [Adapter_Log (lo_logFollow lo) command,
             Log_Errorf (''Failed to log component with name '' @
               GetName (lo_EnvSpecificInfo lo) @ ''.'' @ [CHR 0x0A] @ ''Error: '' @ Error err)],
            Exited 1)"
    using assms by (simp add: DevfileComponentLog_def Let_def)
  show ?thesis
    by (simp add: run DevfileComponentLog_ignores_IsJSON)
qed

theorem DevfileComponentLog_adapter_error_exits_witness:
  "snd (logCommand (exWorld False True (Some (Failure ''pod not found''))) (exLog False)
      (Data exManifest)) =
     Inr \<lparr>CommandId = ''run'', GroupKind = Some RunCommandGroupKind, IsDefault = True,
          CommandLine = ''npm start''\<rparr> \<and>
   Log (exAdapter (Some (Failure ''pod not found''))) (lo_logFollow (exLog False))
     \<lparr>CommandId = ''run'', GroupKind = Some RunCommandGroupKind, IsDefault = True,
      CommandLine = ''npm start''\<rparr> = Inl (Failure ''pod not found'') \<and>
   IsJSON (exWorld False True (Some (Failure ''pod not found''))) \<and>
   DevfileComponentLog (exWorld False True (Some (Failure ''pod not found''))) (exLog False) =
     ([Call_ParseAndValidate ''devfile.yaml'', Call_ValidateDevfileData (Data exManifest),
       Call_GetName,
       Call_NewComponentAdapter ''nodejs'' ''app'' ''app'' exManifest
         (Some (KubernetesContext ''myproject'')),
       Call_GetRunCommand (Data exManifest) [],
       Adapter_Log False
         \<lparr>CommandId = ''run'', GroupKind = Some RunCommandGroupKind, IsDefault = True,
          CommandLine = ''npm start''\<rparr>,
       Log_Errorf (''Failed to log component with name nodejs.'' @ [CHR 0x0A] @
         ''Error: pod not found'')],
      Exited 1) \<and>
   DevfileComponentLog
     ((exWorld False True (Some (Failure ''pod not found'')))\<lparr>IsJSON := False\<rparr>) (exLog False) =
   DevfileComponentLog (exWorld False True (Some (Failure ''pod not found''))) (exLog False)"
proof -
  let ?w = "exWorld False True (Some (Failure ''pod not found''))"
  let ?run = "\<lparr>CommandId = ''run'', GroupKind = Some RunCommandGroupKind, IsDefault = True,
               CommandLine = ''npm start''\<rparr>"
  have parse: "ParseAndValidate ?w (lo_devfilePath (exLog False)) = Inr exManifest"
    by (simp add: exWorld_def)
  have valid: "ValidateDevfileData ?w (Data exManifest) = None"
    by (simp add: exWorld_def)
  have adapter: "NewComponentAdapter ?w (GetName (lo_EnvSpecificInfo (exLog False)))
      (lo_componentContext (exLog False)) (lo_Application (exLog False)) exManifest
      (selectPlatformContext ?w (lo_Namespace (exLog False))) =
      Inr (exAdapter (Some (Failure ''pod not found'')))"
    by (simp add: exWorld_def)
  have command: "logCommand ?w (exLog False) (Data exManifest) =
      ([Call_GetRunCommand (Data exManifest) []], Inr ?run)"
    by (simp add: logCommand_def exLog_sel exWorld_def exManifest_kinds)
  then have resolved: "snd (logCommand ?w (exLog False) (Data exManifest)) = Inr ?run"
    by simp
  have failing: "Log (exAdapter (Some (Failure ''pod not found''))) (lo_logFollow (exLog False)) ?run =
      Inl (Failure ''pod not found'')"
    by (simp add: exAdapter_def)
  have json: "IsJSON ?w"
    by (simp add: exWorld_def)
  note exits = DevfileComponentLog_adapter_error_exits [OF parse valid adapter resolved failing]
  have run: "DevfileComponentLog ?w (exLog False) =
     ([Call_ParseAndValidate ''devfile.yaml'', Call_ValidateDevfileData (Data exManifest),
       Call_GetName,
       Call_NewComponentAdapter ''nodejs'' ''app'' ''app'' exManifest
         (Some (KubernetesContext ''myproject'')),
       Call_GetRunCommand (Data exManifest) [],
       Adapter_Log False ?run,
       Log_Errorf (''Failed to log component with name nodejs.'' @ [CHR 0x0A] @
         ''Error: pod not found'')],
      Exited 1)"
    unfolding exits [THEN conjunct1] command
    by (simp add: exLog_sel exEnv_sel selectPlatformContext_def exWorld_def)
  show ?thesis
    by (intro conjI resolved failing json run
        exits [THEN conjunct2, THEN conjunct2, THEN spec])
qed

section \<open>Properties of Delete and Exec\<close>

text \<open>
  Claim C8. Every adapter that Delete constructs is given the cluster context with the
  caller's namespace, whatever the push target is, and every call of the adapter's
  \<open>Delete\<close> passes the labels that map \<open>component\<close> to the component name, and the
  show flag. When parsing, validation and the construction succeed, both happen exactly
  once, in this order, and what the adapter answers is returned.
\<close>

theorem DevfileComponentDelete_cluster_context_and_labels:
  "(\<forall>name dir application devObj platformContext.
      Call_NewComponentAdapter name dir application devObj platformContext
        \<in> set (fst (DevfileComponentDelete w dopts)) \<longrightarrow>
      platformContext = Some (KubernetesContext (do_namespace dopts))) \<and>
   (\<forall>labels show_flag.
      Adapter_Delete labels show_flag \<in> set (fst (DevfileComponentDelete w dopts)) \<longrightarrow>
      labels = [''component'' \<mapsto> GetName (do_EnvSpecificInfo dopts)] \<and>
      show_flag = do_show dopts) \<and>
   (\<forall>docker. DevfileComponentDelete (w\<lparr>IsPushTargetDocker := docker\<rparr>) dopts =
      DevfileComponentDelete w dopts) \<and>
   (ParseAndValidate w (do_devfilePath dopts) = Inr manifest \<and>
    ValidateDevfileData w (Data manifest) = None \<and>
    NewComponentAdapter w (GetName (do_EnvSpecificInfo dopts)) (do_componentContext dopts)
      (do_Application dopts) manifest (Some (KubernetesContext (do_namespace dopts))) =
      Inr devfileHandler \<longrightarrow>
    DevfileComponentDelete w dopts =
      ([Call_ParseAndValidate (do_devfilePath dopts), Call_ValidateDevfileData (Data manifest),
        Call_GetName,
        Call_NewComponentAdapter (GetName (do_EnvSpecificInfo dopts)) (do_componentContext dopts)
          (do_Application dopts) manifest (Some (KubernetesContext (do_namespace dopts))),
        Adapter_Delete [''component'' \<mapsto> GetName (do_EnvSpecificInfo dopts)] (do_show dopts)],
       Returned (Delete devfileHandler [''component'' \<mapsto> GetName (do_EnvSpecificInfo dopts)]
         (do_show dopts))))"
proof (intro conjI allI impI)
  fix name dir application devObj platformContext
  assume "Call_NewComponentAdapter name dir application devObj platformContext
        \<in> set (fst (DevfileComponentDelete w dopts))"
  then show "platformContext = Some (KubernetesContext (do_namespace dopts))"
    by (auto simp: DevfileComponentDelete_def Let_def split: sum.splits option.splits)
next
  fix labels show_flag
  assume called: "Adapter_Delete labels show_flag \<in> set (fst (DevfileComponentDelete w dopts))"
  then show "labels = [''component'' \<mapsto> GetName (do_EnvSpecificInfo dopts)]"
    by (auto simp: DevfileComponentDelete_def Let_def split: sum.splits option.splits)
  from called show "show_flag = do_show dopts"
    by (auto simp: DevfileComponentDelete_def Let_def split: sum.splits option.splits)
next
  fix docker
  show "DevfileComponentDelete (w\<lparr>IsPushTargetDocker := docker\<rparr>) dopts =
      DevfileComponentDelete w dopts"
    by (simp add: DevfileComponentDelete_def Let_def split: sum.splits option.splits)
next
  assume "ParseAndValidate w (do_devfilePath dopts) = Inr manifest \<and>
    ValidateDevfileData w (Data manifest) = None \<and>
    NewComponentAdapter w (GetName (do_EnvSpecificInfo dopts)) (do_componentContext dopts)
      (do_Application dopts) manifest (Some (KubernetesContext (do_namespace dopts))) =
      Inr devfileHandler"
  then show "DevfileComponentDelete w dopts =
      ([Call_ParseAndValidate (do_devfilePath dopts), Call_ValidateDevfileData (Data manifest),
        Call_GetName,
        Call_NewComponentAdapter (GetName (do_EnvSpecificInfo dopts)) (do_componentContext dopts)
          (do_Application dopts) manifest (Some (KubernetesContext (do_namespace dopts))),
        Adapter_Delete [''component'' \<mapsto> GetName (do_EnvSpecificInfo dopts)] (do_show dopts)],
       Returned (Delete devfileHandler [''component'' \<mapsto> GetName (do_EnvSpecificInfo dopts)]
         (do_show dopts)))"
    by (simp add: DevfileComponentDelete_def Let_def)
qed

theorem DevfileComponentDelete_cluster_context_and_labels_witness:
  "IsPushTargetDocker (exWorld True False None) \<and>
   DevfileComponentDelete (exWorld True False None) exDelete =
     ([Call_ParseAndValidate ''devfile.yaml'', Call_ValidateDevfileData (Data exManifest),
       Call_GetName,
       Call_NewComponentAdapter ''nodejs'' ''app'' ''app'' exManifest
         (Some (KubernetesContext ''myproject'')),
       Adapter_Delete [''component'' \<mapsto> ''nodejs''] True],
      Returned None)"
proof -
  let ?w = "exWorld True False None"
  have steps: "ParseAndValidate ?w (do_devfilePath exDelete) = Inr exManifest \<and>
    ValidateDevfileData ?w (Data exManifest) = None \<and>
    NewComponentAdapter ?w (GetName (do_EnvSpecificInfo exDelete)) (do_componentContext exDelete)
      (do_Application exDelete) exManifest (Some (KubernetesContext (do_namespace exDelete))) =
      Inr (exAdapter None)"
    by (simp add: exWorld_def)
  have docker: "IsPushTargetDocker ?w"
    by (simp add: exWorld_def)
  note deleted = DevfileComponentDelete_cluster_context_and_labels
    [where w = ?w and dopts = exDelete and manifest = exManifest
       and devfileHandler = "exAdapter None",
     THEN conjunct2, THEN conjunct2, THEN conjunct2, THEN mp, OF steps]
  have run: "DevfileComponentDelete ?w exDelete =
     ([Call_ParseAndValidate ''devfile.yaml'', Call_ValidateDevfileData (Data exManifest),
       Call_GetName,
       Call_NewComponentAdapter ''nodejs'' ''app'' ''app'' exManifest
         (Some (KubernetesContext ''myproject'')),
       Adapter_Delete [''component'' \<mapsto> ''nodejs''] True],
      Returned None)"
    unfolding deleted by (simp add: exDelete_def exEnv_sel exAdapter_def)
  show ?thesis
    by (intro conjI docker run)
qed

text \<open>
  Claim C9. Every call of the adapter's \<open>Exec\<close> passes the caller's argument vector as
  it is, and no command is looked up in the manifest; every adapter that Exec constructs
  is given the cluster context with the caller's namespace. When parsing, validation and
  the construction succeed, both happen exactly once and what the adapter answers is
  returned.
\<close>

theorem DevfileComponentExec_passes_command_unchanged:
  "(\<forall>args. Adapter_Exec args \<in> set (fst (DevfileComponentExec w eo command)) \<longrightarrow>
      args = command) \<and>
   filter is_command_lookup (fst (DevfileComponentExec w eo command)) = [] \<and>
   (\<forall>name dir application devObj platformContext.
      Call_NewComponentAdapter name dir application devObj platformContext
        \<in> set (fst (DevfileComponentExec w eo command)) \<longrightarrow>
      platformContext = Some (KubernetesContext (eo_namespace eo))) \<and>
   (ParseAndValidate w (eo_devfilePath eo) = Inr manifest \<and>
    ValidateDevfileData w (Data manifest) = None \<and>
    NewComponentAdapter w (GetName (eo_EnvSpecificInfo eo)) (eo_componentContext eo)
      (eo_Application eo) manifest (Some (KubernetesContext (eo_namespace eo))) =
      Inr devfileHandler \<longrightarrow>
    DevfileComponentExec w eo command =
      ([Call_ParseAndValidate (eo_devfilePath eo), Call_ValidateDevfileData (Data manifest),
        Call_GetName,
        Call_NewComponentAdapter (GetName (eo_EnvSpecificInfo eo)) (eo_componentContext eo)
          (eo_Application eo) manifest (Some (KubernetesContext (eo_namespace eo))),
        Adapter_Exec command],
       Returned (Exec devfileHandler command)))"
proof (intro conjI allI impI)
  fix args
  assume "Adapter_Exec args \<in> set (fst (DevfileComponentExec w eo command))"
  then show "args = command"
    by (auto simp: DevfileComponentExec_def Let_def split: sum.splits option.splits)
next
  show "filter is_command_lookup (fst (DevfileComponentExec w eo command)) = []"
    by (simp add: DevfileComponentExec_def Let_def split: sum.splits option.splits)
next
  fix name dir application devObj platformContext
  assume "Call_NewComponentAdapter name dir application devObj platformContext
        \<in> set (fst (DevfileComponentExec w eo command))"
  then show "platformContext = Some (KubernetesContext (eo_namespace eo))"
    by (auto simp: DevfileComponentExec_def Let_def split: sum.splits option.splits)
next
  assume "ParseAndValidate w (eo_devfilePath eo) = Inr manifest \<and>
    ValidateDevfileData w (Data manifest) = None \<and>
    NewComponentAdapter w (GetName (eo_EnvSpecificInfo eo)) (eo_componentContext eo)
      (eo_Application eo) manifest (Some (KubernetesContext (eo_namespace eo))) =
      Inr devfileHandler"
  then show "DevfileComponentExec w eo command =
      ([Call_ParseAndValidate (eo_devfilePath eo), Call_ValidateDevfileData (Data manifest),
        Call_GetName,
        Call_NewComponentAdapter (GetName (eo_EnvSpecificInfo eo)) (eo_componentContext eo)
          (eo_Application eo) manifest (Some (KubernetesContext (eo_namespace eo))),
        Adapter_Exec command],
       Returned (Exec devfileHandler command))"
    by (simp add: DevfileComponentExec_def Let_def)
qed

theorem DevfileComponentExec_passes_command_unchanged_witness:
  "IsPushTargetDocker (exWorld True False None) \<and>
   DevfileComponentExec (exWorld True False None) exExec [''npm'', ''test''] =
     ([Call_ParseAndValidate ''devfile.yaml'', Call_ValidateDevfileData (Data exManifest),
       Call_GetName,
       Call_NewComponentAdapter ''nodejs'' ''app'' ''app'' exManifest
         (Some (KubernetesContext ''myproject'')),
       Adapter_Exec [''npm'', ''test'']],
      Returned None) \<and>
   filter is_Adapter_Delete
     (fst (DevfileComponentExec (exWorld True False None) exExec [''npm'', ''test''])) = []"
proof -
  let ?w = "exWorld True False None"
  have steps: "ParseAndValidate ?w (eo_devfilePath exExec) = Inr exManifest \<and>
    ValidateDevfileData ?w (Data exManifest) = None \<and>
    NewComponentAdapter ?w (GetName (eo_EnvSpecificInfo exExec)) (eo_componentContext exExec)
      (eo_Application exExec) exManifest (Some (KubernetesContext (eo_namespace exExec))) =
      Inr (exAdapter None)"
    by (simp add: exWorld_def)
  have docker: "IsPushTargetDocker ?w"
    by (simp add: exWorld_def)
  note executed = DevfileComponentExec_passes_command_unchanged
    [where w = ?w and eo = exExec and command = "[''npm'', ''test'']" and manifest = exManifest
       and devfileHandler = "exAdapter None",
     THEN conjunct2, THEN conjunct2, THEN conjunct2, THEN mp, OF steps]
  have run: "DevfileComponentExec ?w exExec [''npm'', ''test''] =
     ([Call_ParseAndValidate ''devfile.yaml'', Call_ValidateDevfileData (Data exManifest),
       Call_GetName,
       Call_NewComponentAdapter ''nodejs'' ''app'' ''app'' exManifest
         (Some (KubernetesContext ''myproject'')),
       Adapter_Exec [''npm'', ''test'']],
      Returned None)"
    unfolding executed by (simp add: exExec_def exEnv_sel exAdapter_def)
  have no_delete: "filter is_Adapter_Delete (fst (DevfileComponentExec ?w exExec [''npm'', ''test''])) = []"
    unfolding run by simp
  show ?thesis
    by (intro conjI docker run no_delete)
qed

end
